theory Spec2Isabelle
  imports Complex_Main "HOL-Library.Multiset"
begin

section \<open>Python string primitives used by the operators\<close>

definition ascii_uppercase :: string where
  "ascii_uppercase = ''ABCDEFGHIJKLMNOPQRSTUVWXYZ''"

definition ascii_lowercase :: string where
  "ascii_lowercase = ''abcdefghijklmnopqrstuvwxyz''"

definition lower_char :: "char \<Rightarrow> char" where
  "lower_char c =
     (case map_of (zip ascii_uppercase ascii_lowercase) c of None \<Rightarrow> c | Some d \<Rightarrow> d)"

definition lower :: "string \<Rightarrow> string" where
  "lower s = map lower_char s"

definition islower_char :: "char \<Rightarrow> bool" where
  "islower_char c = (c \<in> set ascii_lowercase)"

fun startswith :: "string \<Rightarrow> string \<Rightarrow> bool" where
  "startswith s [] = True"
| "startswith [] (p # ps) = False"
| "startswith (c # cs) (p # ps) = (c = p \<and> startswith cs ps)"

definition endswith :: "string \<Rightarrow> string \<Rightarrow> bool" where
  "endswith s suf = startswith (rev s) (rev suf)"

fun str_in :: "string \<Rightarrow> string \<Rightarrow> bool" where
  "str_in sub [] = (sub = [])"
| "str_in sub (c # cs) = (startswith (c # cs) sub \<or> str_in sub cs)"

fun replace :: "string \<Rightarrow> string \<Rightarrow> string \<Rightarrow> string" where
  "replace old new [] = (if old = [] then new else [])"
| "replace old new (c # cs) =
     (if old = [] then new @ c # replace old new cs
      else if startswith (c # cs) old then new @ replace old new (drop (length old - 1) cs)
      else c # replace old new cs)"

definition get_side :: "string \<Rightarrow> string" where
  "get_side expression_name =
     (if str_in ''left'' (lower expression_name) \<or> endswith (lower expression_name) ''_l''
         \<or> endswith expression_name ''L'' then ''L''
      else if str_in ''right'' (lower expression_name) \<or> endswith (lower expression_name) ''_r''
         \<or> endswith expression_name ''R'' then ''R''
      else ''N'')"

definition poll_side_in_expression_name :: "string \<Rightarrow> string \<Rightarrow> bool" where
  "poll_side_in_expression_name side expression_name =
     (if side = ''L'' then
        str_in ''left'' (lower expression_name) \<or> endswith (lower expression_name) ''_l''
          \<or> endswith expression_name ''L''
      else if side = ''R'' then
        str_in ''right'' (lower expression_name) \<or> endswith (lower expression_name) ''_r''
          \<or> endswith expression_name ''R''
      else False)"

definition get_mirror_name :: "string \<Rightarrow> string \<Rightarrow> string" where
  "get_mirror_name side expression_name =
     (if side = ''L'' then
        (if str_in ''Left'' expression_name then replace ''Left'' ''Right'' expression_name
         else if str_in ''left'' expression_name then replace ''left'' ''right'' expression_name
         else if str_in ''LEFT'' expression_name then replace ''LEFT'' ''RIGHT'' expression_name
         else if endswith (lower expression_name) ''_l'' then
           (if islower_char (last expression_name) then butlast expression_name @ ''r''
            else butlast expression_name @ ''R'')
         else if endswith expression_name ''L'' then butlast expression_name @ ''R''
         else '''')
      else if side = ''R'' then
        (if str_in ''Right'' expression_name then replace ''Right'' ''Left'' expression_name
         else if str_in ''right'' expression_name then replace ''right'' ''left'' expression_name
         else if str_in ''RIGHT'' expression_name then replace ''RIGHT'' ''LEFT'' expression_name
         else if endswith (lower expression_name) ''_r'' then
           (if islower_char (last expression_name) then butlast expression_name @ ''l''
            else butlast expression_name @ ''L'')
         else if endswith expression_name ''R'' then butlast expression_name @ ''L''
         else '''')
      else '''')"


section \<open>Scene data: expression list, actions and F-curves\<close>

text \<open>
  A keyframe is its control point \<open>co = (frame, value)\<close>. Blender stores both as floats;
  the operators only compare frames and add or subtract 5 and 10, so the model uses exact
  rationals. An action is the list of its F-curves; \<open>bpy.data.actions\<close> is a store from
  action names to actions, and the rig refers to its active action by name.
\<close>

type_synonym keyframe = "rat \<times> rat"

record fcurve =
  data_path :: string
  array_index :: nat
  keyframe_points :: "keyframe list"

type_synonym action = "fcurve list"

datatype action_id =
  Overwrite_shape_action | Faceit_shape_action | Corrective_sk_action | Other_action string

record anim_properties =
  name :: string
  side :: string
  frame :: int
  index :: int
  mirror_name :: string
  corr_shape_key :: bool
  procedural :: string

record scene =
  faceit_expression_list :: "anim_properties list"
  faceit_expression_list_index :: int
  frame_start :: int
  frame_end :: int
  use_keyframe_insert_auto :: bool
  actions :: "action_id \<rightharpoonup> action"
  rig_action :: "action_id option"

datatype py_error =
  PollFailed | TypeError | ValueError | NameError | UnboundLocalError | KeyError | IndexError
  | AttributeError | FileNotFoundError | ZeroDivisionError

datatype op_status = FINISHED | CANCELLED

text \<open>
  JSON values as \<open>json.load\<close> returns them. An object is an association list in
  insertion order, as a Python dict is.
\<close>

datatype json =
  JNull | JBool bool | JNumber rat | JString string | JArray "json list"
  | JObject "(string \<times> json) list"

text \<open>
  The rig, the file system and the helpers of the add-on whose code is not among the
  sources at hand (modules \<open>core\<close>, \<open>animate_utils\<close>, \<open>corrective_shape_keys_utils\<close>)
  are parameters of the model. The operators below read the expression list themselves;
  these helpers act on actions, on the rig and on shape keys.
\<close>

record host =
  rig_bones :: "string list"
  rig_dimensions :: "rat \<times> rat \<times> rat"
  rest_pose :: "(string \<times> json) list"
  get_eye_dimensions :: "json \<times> json"
  get_expression_presets :: string
  realpath :: "string \<Rightarrow> string"
  get_action_frame_range :: "action \<Rightarrow> rat \<times> rat"
  get_expression_name_double_entries :: "string \<Rightarrow> anim_properties list \<Rightarrow> string"
  get_fcurve_from_bpy_struct ::
    "action \<Rightarrow> string \<Rightarrow> nat \<Rightarrow> bool option \<Rightarrow> action \<times> nat"
  add_expression_keyframes :: "int \<Rightarrow> action \<Rightarrow> action"
  eye_blink_keyframes ::
    "string \<Rightarrow> string \<Rightarrow> int \<Rightarrow> action_id option \<Rightarrow> (action_id \<rightharpoonup> action)
      \<Rightarrow> (action_id \<rightharpoonup> action)"
  mouth_close_keyframes ::
    "int \<Rightarrow> int \<Rightarrow> action_id option \<Rightarrow> (action_id \<rightharpoonup> action) \<Rightarrow> (action_id \<rightharpoonup> action)"
  populate_keyframe_points_from_np_array :: "fcurve \<Rightarrow> keyframe list \<Rightarrow> bool \<Rightarrow> fcurve"
  kf_data_to_numpy_array :: "fcurve \<Rightarrow> keyframe list"
  scale_poses_to_new_dimensions_slow ::
    "rat list \<Rightarrow> string list option \<Rightarrow> int list \<Rightarrow> action \<Rightarrow> action"
  scale_action_to_rig :: "rat list \<Rightarrow> string list option \<Rightarrow> int list \<Rightarrow> action \<Rightarrow> action"
  scale_eye_animation :: "json \<Rightarrow> action \<Rightarrow> action"
  create_overwrite_animation :: "action \<Rightarrow> action"
  has_corrective_shape_key :: "string \<Rightarrow> bool"
  keyframe_insert_rest_pose :: "rat \<Rightarrow> action \<Rightarrow> action"

text \<open>Python's \<open>int(x)\<close> on a float truncates towards zero.\<close>

definition py_int :: "rat \<Rightarrow> int" where
  "py_int x = (if 0 \<le> x then \<lfloor>x\<rfloor> else \<lceil>x\<rceil>)"

text \<open>
  \<open>collection[i]\<close> with an integer: positions \<open>0 .. len - 1\<close>, or \<open>-len .. -1\<close>
  counted from the end; anything else raises.
\<close>

definition collection_get :: "'a list \<Rightarrow> int \<Rightarrow> py_error + 'a" where
  "collection_get xs i =
     (if 0 \<le> i \<and> i < int (length xs) then Inr (xs ! nat i)
      else if i < 0 \<and> - int (length xs) \<le> i then Inr (xs ! nat (int (length xs) + i))
      else Inl IndexError)"

text \<open>\<open>collection.find(key)\<close>: position of the first item with that name, or -1.\<close>

fun collection_find :: "anim_properties list \<Rightarrow> string \<Rightarrow> int" where
  "collection_find [] key = -1"
| "collection_find (x # xs) key =
     (if name x = key then 0
      else (let r = collection_find xs key in if r < 0 then -1 else r + 1))"

text \<open>Indexing a collection by a string key.\<close>

definition collection_get_key :: "anim_properties list \<Rightarrow> string \<Rightarrow> py_error + anim_properties" where
  "collection_get_key xs key =
     (let i = collection_find xs key in if i < 0 then Inl KeyError else Inr (xs ! nat i))"

text \<open>\<open>collection.move(src, dst)\<close> and \<open>collection.remove(i)\<close> do nothing out of range.\<close>

definition collection_move :: "'a list \<Rightarrow> int \<Rightarrow> int \<Rightarrow> 'a list" where
  "collection_move xs src dst =
     (let n = int (length xs)
      in if 0 \<le> src \<and> src < n \<and> 0 \<le> dst \<and> dst < n then
           (let x = xs ! nat src; ys = take (nat src) xs @ drop (Suc (nat src)) xs
            in take (nat dst) ys @ x # drop (nat dst) ys)
         else xs)"

definition collection_remove :: "'a list \<Rightarrow> int \<Rightarrow> 'a list" where
  "collection_remove xs i =
     (if 0 \<le> i \<and> i < int (length xs) then take (nat i) xs @ drop (Suc (nat i)) xs else xs)"

text \<open>\<open>fcurve.update()\<close> puts the keyframes back in chronological order.\<close>

definition fcurve_update :: "fcurve \<Rightarrow> fcurve" where
  "fcurve_update fc = fc\<lparr>keyframe_points := sort_key fst (keyframe_points fc)\<rparr>"

text \<open>\<open>fcurves.find(data_path)\<close>: the first F-curve with that path and array index 0.\<close>

fun fcurves_find :: "fcurve list \<Rightarrow> string \<Rightarrow> nat option" where
  "fcurves_find [] dp = None"
| "fcurves_find (fc # fcs) dp =
     (if data_path fc = dp \<and> array_index fc = 0 then Some 0
      else map_option Suc (fcurves_find fcs dp))"

definition corrective_data_path :: "string \<Rightarrow> string" where
  "corrective_data_path expression_name =
     ''key_blocks[\"faceit_cc_'' @ expression_name @ ''\"].value''"

section \<open>FACEIT_OT_MoveExpressionItem\<close>

datatype direction = UP | DOWN

definition move_poll :: "scene \<Rightarrow> bool" where
  "move_poll sc =
     (faceit_expression_list sc \<noteq> [] \<and> 0 \<le> faceit_expression_list_index sc
      \<and> faceit_expression_list_index sc < int (length (faceit_expression_list sc)))"

definition move_index :: "direction \<Rightarrow> anim_properties list \<Rightarrow> int \<Rightarrow> int" where
  "move_index dir flist idx =
     (let list_length = int (length flist) - 1;
          new_index = idx + (if dir = UP then -1 else 1)
      in max 0 (min new_index list_length))"

text \<open>The three passes over the keyframes of one curve: park, move, unpark.\<close>

definition shift_key_if :: "rat \<Rightarrow> rat \<Rightarrow> keyframe \<Rightarrow> keyframe" where
  "shift_key_if pos delta key = (if fst key = pos then (fst key + delta, snd key) else key)"

definition move_curve_keys :: "rat \<Rightarrow> rat \<Rightarrow> rat \<Rightarrow> fcurve \<Rightarrow> fcurve" where
  "move_curve_keys expression_frame new_index_frame add_frame curve =
     (let kps1 = map (shift_key_if new_index_frame (- (add_frame / 2))) (keyframe_points curve);
          kps2 = map (shift_key_if expression_frame add_frame) kps1;
          kps3 = map (shift_key_if (new_index_frame - add_frame / 2) (- (add_frame / 2))) kps2
      in curve\<lparr>keyframe_points := kps3\<rparr>)"

definition move_action_keys :: "rat \<Rightarrow> rat \<Rightarrow> rat \<Rightarrow> action \<Rightarrow> action" where
  "move_action_keys expression_frame new_index_frame add_frame act =
     map fcurve_update (map (move_curve_keys expression_frame new_index_frame add_frame) act)"

definition shift_all_keys :: "rat \<Rightarrow> fcurve \<Rightarrow> fcurve" where
  "shift_all_keys delta fc =
     fcurve_update
       (fc\<lparr>keyframe_points := map (\<lambda>key. (fst key + delta, snd key)) (keyframe_points fc)\<rparr>)"

definition shift_found_fcurve :: "string \<Rightarrow> rat \<Rightarrow> action \<Rightarrow> action" where
  "shift_found_fcurve dp delta act =
     (case fcurves_find act dp of
        None \<Rightarrow> act
      | Some i \<Rightarrow> act[i := shift_all_keys delta (act ! i)])"

definition move_execute :: "direction \<Rightarrow> scene \<Rightarrow> py_error + (op_status \<times> scene)" where
  "move_execute dir sc =
     (let idx = faceit_expression_list_index sc;
          expression_list = faceit_expression_list sc
      in case collection_get expression_list idx of
           Inl e \<Rightarrow> Inl e
         | Inr expression_item \<Rightarrow>
     (let add_index = (if dir = UP then -1 else 1);
          new_index = idx + add_index;
          add_frame = add_index * 10
      in if new_index = int (length expression_list) \<or> new_index = -1 then Inr (CANCELLED, sc)
         else case collection_get expression_list new_index of
           Inl e \<Rightarrow> Inl e
         | Inr new_index_item \<Rightarrow>
     (let expression_frame = frame expression_item;
          new_index_frame = frame new_index_item;
          mv = move_action_keys (of_int expression_frame) (of_int new_index_frame) (of_int add_frame);
          acts1 = (case actions sc Overwrite_shape_action of
                     None \<Rightarrow> actions sc
                   | Some a \<Rightarrow> (actions sc)(Overwrite_shape_action \<mapsto> mv a));
          acts2 = (case acts1 Faceit_shape_action of
                     None \<Rightarrow> acts1
                   | Some a \<Rightarrow> acts1(Faceit_shape_action \<mapsto> mv a));
          acts3 = (case acts2 Corrective_sk_action of
                     None \<Rightarrow> acts2
                   | Some cc \<Rightarrow>
                       acts2(Corrective_sk_action \<mapsto>
                         shift_found_fcurve (corrective_data_path (name new_index_item))
                           (- of_int add_frame)
                           (shift_found_fcurve (corrective_data_path (name expression_item))
                              (of_int add_frame) cc)));
          n = int (length expression_list);
          i = nat (if idx < 0 then n + idx else idx);
          j = nat (if new_index < 0 then n + new_index else new_index);
          items1 = expression_list[i := (expression_list ! i)\<lparr>frame := new_index_frame\<rparr>];
          items2 = items1[j := (items1 ! j)\<lparr>frame := expression_frame\<rparr>];
          items3 = collection_move items2 new_index idx
      in Inr (FINISHED,
              sc\<lparr>faceit_expression_list := items3,
                 faceit_expression_list_index := move_index dir items3 idx,
                 actions := acts3\<rparr>))))"

definition move_expression_item :: "direction \<Rightarrow> scene \<Rightarrow> py_error + (op_status \<times> scene)" where
  "move_expression_item dir sc = (if move_poll sc then move_execute dir sc else Inl PollFailed)"

section \<open>FACEIT_OT_ClearFaceitExpressions and FACEIT_OT_RemoveExpressionItem\<close>

text \<open>
  Clearing empties the list, resets the index, removes the shape action and the overwrite
  action from \<open>bpy.data.actions\<close> and detaches the rig's action. The corrective
  shape-key action is only unlinked from the objects, so it stays in the store.
\<close>

definition clear_execute :: "scene \<Rightarrow> op_status \<times> scene" where
  "clear_execute sc =
     (FINISHED,
      sc\<lparr>faceit_expression_list := [],
         faceit_expression_list_index := -1,
         actions := (actions sc)(Faceit_shape_action := None, Overwrite_shape_action := None),
         rig_action := None\<rparr>)"

definition remove_poll :: "scene \<Rightarrow> bool" where
  "remove_poll sc =
     (0 \<le> faceit_expression_list_index sc
      \<and> faceit_expression_list_index sc < int (length (faceit_expression_list sc)))"

text \<open>
  \<open>for key in curve.keyframe_points: if key.co[0] == frame: remove(key)\<close> deletes from
  the collection it iterates over: after a removal the next keyframe slides into the freed
  position and the iteration steps past it unexamined.
\<close>

fun remove_keys_at :: "rat \<Rightarrow> keyframe list \<Rightarrow> keyframe list" where
  "remove_keys_at f [] = []"
| "remove_keys_at f [key] = (if fst key = f then [] else [key])"
| "remove_keys_at f (key # nxt # keys) =
     (if fst key = f then nxt # remove_keys_at f keys
      else key # remove_keys_at f (nxt # keys))"

definition remove_curve_keys :: "rat \<Rightarrow> fcurve \<Rightarrow> fcurve" where
  "remove_curve_keys f curve =
     curve\<lparr>keyframe_points := remove_keys_at f (keyframe_points curve)\<rparr>"

definition shift_back_key :: "rat \<Rightarrow> keyframe \<Rightarrow> keyframe" where
  "shift_back_key f key = (if fst key > f then (fst key - 10, snd key) else key)"

definition shift_back_curve_keys :: "rat \<Rightarrow> fcurve \<Rightarrow> fcurve" where
  "shift_back_curve_keys f curve =
     curve\<lparr>keyframe_points := map (shift_back_key f) (keyframe_points curve)\<rparr>"

definition remove_action_keys :: "rat \<Rightarrow> action \<Rightarrow> action" where
  "remove_action_keys f act = map (shift_back_curve_keys f) (map (remove_curve_keys f) act)"

definition remove_in_action ::
  "rat \<Rightarrow> action_id \<Rightarrow> (action_id \<rightharpoonup> action) \<Rightarrow> (action_id \<rightharpoonup> action)" where
  "remove_in_action f aid acts =
     (case acts aid of None \<Rightarrow> acts | Some a \<Rightarrow> acts(aid \<mapsto> remove_action_keys f a))"

definition shift_back_item :: "int \<Rightarrow> anim_properties \<Rightarrow> anim_properties" where
  "shift_back_item f item = (if frame item > f then item\<lparr>frame := frame item - 10\<rparr> else item)"

definition remove_faceit_item :: "anim_properties \<Rightarrow> scene \<Rightarrow> scene" where
  "remove_faceit_item item sc =
     (let item_index = collection_find (faceit_expression_list sc) (name item);
          f = frame item;
          acts = remove_in_action (of_int f) Corrective_sk_action
                   (remove_in_action (of_int f) Faceit_shape_action
                      (remove_in_action (of_int f) Overwrite_shape_action (actions sc)))
      in sc\<lparr>faceit_expression_list :=
                map (shift_back_item f) (collection_remove (faceit_expression_list sc) item_index),
            actions := acts\<rparr>)"

definition remove_execute :: "host \<Rightarrow> string \<Rightarrow> scene \<Rightarrow> py_error + (op_status \<times> scene)" where
  "remove_execute h remove_item sc =
     (let auto_key = use_keyframe_insert_auto sc;
          sc1 = sc\<lparr>use_keyframe_insert_auto := False\<rparr>;
          expression_list_index = faceit_expression_list_index sc1
      in if length (faceit_expression_list sc1) \<le> 1 then
           Inr (FINISHED, (snd (clear_execute sc1))\<lparr>frame_start := 1, frame_end := 250\<rparr>)
         else
           case (if remove_item \<noteq> [] then collection_get_key (faceit_expression_list sc1) remove_item
                 else collection_get (faceit_expression_list sc1) expression_list_index) of
             Inl e \<Rightarrow> Inl e
           | Inr item \<Rightarrow>
     (let sc2 = remove_faceit_item item sc1;
          expression_count = int (length (faceit_expression_list sc2));
          sc3 = (if expression_list_index \<ge> expression_count
                 then sc2\<lparr>faceit_expression_list_index := expression_count - 1\<rparr> else sc2);
          sc4 = sc3\<lparr>use_keyframe_insert_auto := auto_key\<rparr>
      in case actions sc4 Overwrite_shape_action of
           None \<Rightarrow> Inr (FINISHED, sc4)
         | Some ow \<Rightarrow>
             Inr (FINISHED,
                  sc4\<lparr>frame_start := py_int (fst (get_action_frame_range h ow)),
                      frame_end := py_int (snd (get_action_frame_range h ow))\<rparr>)))"

definition remove_expression_item :: "host \<Rightarrow> string \<Rightarrow> scene \<Rightarrow> py_error + (op_status \<times> scene)" where
  "remove_expression_item h remove_item sc =
     (if remove_poll sc then remove_execute h remove_item sc else Inl PollFailed)"

section \<open>FACEIT_OT_ProceduralEyeBlinks and FACEIT_OT_ProceduralMouthClose\<close>

text \<open>
  Both operators create the two actions when they are missing, read the frame of the
  expression they work on from the list, and key bones of the rig at that frame. The keys
  depend on the bone matrices of the rig: that part is the parameter
  \<open>eye_blink_keyframes\<close> (respectively \<open>mouth_close_keyframes\<close>).
\<close>

definition ensure_action :: "action_id \<Rightarrow> (action_id \<rightharpoonup> action) \<Rightarrow> (action_id \<rightharpoonup> action)" where
  "ensure_action aid acts = (case acts aid of None \<Rightarrow> acts(aid \<mapsto> []) | Some _ \<Rightarrow> acts)"

definition action_or_new :: "action option \<Rightarrow> action" where
  "action_or_new a = (case a of None \<Rightarrow> [] | Some act \<Rightarrow> act)"

definition procedural_eye_blinks_execute ::
  "host \<Rightarrow> int \<Rightarrow> string \<Rightarrow> string \<Rightarrow> scene \<Rightarrow> py_error + (op_status \<times> scene)" where
  "procedural_eye_blinks_execute h expression_index sd anim_mode sc =
     (let acts = ensure_action Overwrite_shape_action
                   (ensure_action Faceit_shape_action (actions sc));
          auto_key = use_keyframe_insert_auto sc
      in case collection_get (faceit_expression_list sc) expression_index of
           Inl e \<Rightarrow> Inl e
         | Inr expression_item \<Rightarrow>
             Inr (FINISHED,
                  sc\<lparr>actions := eye_blink_keyframes h sd anim_mode (frame expression_item)
                                  (rig_action sc) acts,
                     use_keyframe_insert_auto := auto_key\<rparr>))"

definition collection_get_opt :: "anim_properties list \<Rightarrow> string \<Rightarrow> anim_properties option" where
  "collection_get_opt xs key =
     (let i = collection_find xs key in if i < 0 then None else Some (xs ! nat i))"

definition procedural_mouth_close_execute ::
  "host \<Rightarrow> string \<Rightarrow> string \<Rightarrow> scene \<Rightarrow> py_error + (op_status \<times> scene)" where
  "procedural_mouth_close_execute h jaw_open_expression mouth_close_expression sc =
     (let acts = ensure_action Overwrite_shape_action
                   (ensure_action Faceit_shape_action (actions sc));
          auto_key = use_keyframe_insert_auto sc
      in case (collection_get_opt (faceit_expression_list sc) jaw_open_expression,
               collection_get_opt (faceit_expression_list sc) mouth_close_expression) of
           (Some jaw_open_shape, Some mouth_close_shape) \<Rightarrow>
             Inr (FINISHED,
                  sc\<lparr>actions := mouth_close_keyframes h (frame jaw_open_shape)
                                  (frame mouth_close_shape) (rig_action sc) acts,
                     use_keyframe_insert_auto := auto_key\<rparr>)
         | _ \<Rightarrow> Inl AttributeError)"

section \<open>FACEIT_OT_AddExpressionItem\<close>

record add_props =
  op_expression_name :: string
  op_new_exp_index :: int
  op_mirror_name_overwrite :: string
  op_side :: string
  op_custom_shape :: bool
  op_auto_mirror :: bool
  op_procedural :: string

definition add_defaults :: add_props where
  "add_defaults =
     \<lparr>op_expression_name = ''Expression'', op_new_exp_index = -1,
      op_mirror_name_overwrite = '''', op_side = ''N'', op_custom_shape = False,
      op_auto_mirror = False, op_procedural = ''NONE''\<rparr>"

definition side_items :: "string list" where
  "side_items = [''L'', ''N'', ''R'']"

definition PROCEDURAL_EXPRESSION_ITEMS :: "string list" where
  "PROCEDURAL_EXPRESSION_ITEMS = [''NONE'', ''EYEBLINKS'', ''MOUTHCLOSE'']"

text \<open>The F-curves created for every control bone of the rig in the overwrite action.\<close>

definition bone_data_paths :: "string \<Rightarrow> (string \<times> nat) list" where
  "bone_data_paths b =
     (let base_dp = ''pose.bones[\"'' @ b @ ''\"].''
      in concat (map (\<lambda>dp. map (\<lambda>i. (dp, i)) [0, 1, 2])
           [base_dp @ ''location'', base_dp @ ''scale'', base_dp @ ''rotation_euler'']))"

definition ensure_bone_fcurves :: "host \<Rightarrow> action \<Rightarrow> action" where
  "ensure_bone_fcurves h ow =
     foldl (\<lambda>act (dp, i). fst (get_fcurve_from_bpy_struct h act dp i (Some False))) ow
       (concat (map bone_data_paths
          (filter (\<lambda>b. \<not> str_in ''MCH'' b \<and> \<not> str_in ''DEF'' b) (rig_bones h))))"

definition set_last_mirror_name :: "string \<Rightarrow> anim_properties list \<Rightarrow> anim_properties list" where
  "set_last_mirror_name m items =
     (if items = [] then [] else butlast items @ [(last items)\<lparr>mirror_name := m\<rparr>])"

definition set_frame_range :: "host \<Rightarrow> scene \<Rightarrow> scene" where
  "set_frame_range h sc =
     (case actions sc Overwrite_shape_action of
        None \<Rightarrow> sc
      | Some ow \<Rightarrow>
          sc\<lparr>frame_start := py_int (fst (get_action_frame_range h ow)),
             frame_end := py_int (snd (get_action_frame_range h ow))\<rparr>)"

function add_execute :: "host \<Rightarrow> add_props \<Rightarrow> scene \<Rightarrow> py_error + (op_status \<times> scene)" where
  "add_execute h props sc =
     (let auto_key = use_keyframe_insert_auto sc;
          sc1 = sc\<lparr>use_keyframe_insert_auto := False\<rparr>;
          expression_list = faceit_expression_list sc1;
          had_ow_action = (actions sc1 Overwrite_shape_action \<noteq> None)
      in if op_new_exp_index props \<noteq> -1 then Inl UnboundLocalError
         else
     (let idx = int (length expression_list);
          f = (idx + 1) * 10;
          expression_name_final =
            get_expression_name_double_entries h (op_expression_name props) expression_list;
          item = \<lparr>name = expression_name_final, side = op_side props, frame = f, index = 0,
                  mirror_name = op_mirror_name_overwrite props, corr_shape_key = False,
                  procedural = op_procedural props\<rparr>;
          sc2 = sc1\<lparr>faceit_expression_list := expression_list @ [item]\<rparr>;
          anim_mode = (\<lambda>sd. if sd = ''N'' then ''ADD'' else ''REPLACE'')
      in if op_custom_shape props then
           (let sd = (if poll_side_in_expression_name (op_side props) (op_expression_name props)
                      then op_side props else ''N'');
                mirror = (if mirror_name item = '''' then get_mirror_name sd expression_name_final
                          else mirror_name item);
                acts = ensure_action Overwrite_shape_action
                         (ensure_action Faceit_shape_action (actions sc2));
                ow = add_expression_keyframes h f
                       (ensure_bone_fcurves h (action_or_new (acts Overwrite_shape_action)));
                sc3 = sc2\<lparr>faceit_expression_list :=
                             set_last_mirror_name mirror (faceit_expression_list sc2),
                           actions := acts(Overwrite_shape_action \<mapsto> ow),
                           rig_action := Some Overwrite_shape_action\<rparr>
            in case (if op_procedural props \<noteq> ''NONE''
                     then procedural_eye_blinks_execute h (-1) sd (anim_mode sd) sc3
                     else Inr (FINISHED, sc3)) of
                 Inl e \<Rightarrow> Inl e
               | Inr (_, sc4) \<Rightarrow>
                   (case (if op_auto_mirror props \<and> sd \<noteq> ''N''
                          then add_execute h
                                 (add_defaults\<lparr>op_expression_name := mirror,
                                    op_custom_shape := True,
                                    op_side := (if sd = ''L'' then ''R'' else ''L''),
                                    op_procedural := op_procedural props\<rparr>) sc4
                          else Inr (FINISHED, sc4)) of
                      Inl e \<Rightarrow> Inl e
                    | Inr (_, sc5) \<Rightarrow>
                        Inr (FINISHED,
                             set_frame_range h
                               (sc5\<lparr>faceit_expression_list_index := idx,
                                    use_keyframe_insert_auto := auto_key\<rparr>))))
         else
           (case (if op_procedural props = ''EYEBLINKS''
                  then procedural_eye_blinks_execute h (-1) (op_side props)
                         (anim_mode (op_side props)) sc2
                  else Inr (FINISHED, sc2)) of
              Inl e \<Rightarrow> Inl e
            | Inr (_, sc4) \<Rightarrow>
                Inr (FINISHED,
                     (if had_ow_action then set_frame_range h else id)
                       (sc4\<lparr>use_keyframe_insert_auto := auto_key\<rparr>)))))"
  by pat_completeness auto
termination
  by (relation "measure (\<lambda>(h, props, sc). if op_auto_mirror props then 1 else 0)")
    (auto simp: add_defaults_def)

declare add_execute.simps [simp del]

text \<open>
  Calling the operator through \<open>bpy.ops\<close> with keyword arguments: the enum properties
  refuse a value that is not one of their items.
\<close>

definition add_expression_item :: "host \<Rightarrow> add_props \<Rightarrow> scene \<Rightarrow> py_error + (op_status \<times> scene)" where
  "add_expression_item h props sc =
     (if op_side props \<notin> set side_items \<or> op_procedural props \<notin> set PROCEDURAL_EXPRESSION_ITEMS
      then Inl TypeError else add_execute h props sc)"

section \<open>Reading and writing \<open>.face\<close> files\<close>

text \<open>
  A file is modelled by the JSON document it holds: \<open>json.dump\<close> followed by
  \<open>json.load\<close> gives the document back, with the integer keys of a dict written as
  decimal strings.
\<close>

type_synonym filesystem = "string \<rightharpoonup> json"

definition dict_get :: "(string \<times> json) list \<Rightarrow> string \<Rightarrow> json option" where
  "dict_get d key = map_of d key"

text \<open>\<open>d[key] = v\<close>: an existing key keeps its position, a new key goes to the end.\<close>

fun dict_set :: "(string \<times> json) list \<Rightarrow> string \<Rightarrow> json \<Rightarrow> (string \<times> json) list" where
  "dict_set [] key v = [(key, v)]"
| "dict_set ((k, w) # d) key v = (if k = key then (k, v) # d else (k, w) # dict_set d key v)"

definition py_truthy :: "json \<Rightarrow> bool" where
  "py_truthy j =
     (case j of JNull \<Rightarrow> False | JBool b \<Rightarrow> b | JNumber x \<Rightarrow> x \<noteq> 0 | JString s \<Rightarrow> s \<noteq> []
      | JArray xs \<Rightarrow> xs \<noteq> [] | JObject d \<Rightarrow> d \<noteq> [])"

text \<open>\<open>str(n)\<close> for a non-negative integer.\<close>

definition digit_char :: "nat \<Rightarrow> char" where
  "digit_char d = ''0123456789'' ! (d mod 10)"

fun str_nat_acc :: "nat \<Rightarrow> nat \<Rightarrow> string \<Rightarrow> string" where
  "str_nat_acc 0 n acc = acc"
| "str_nat_acc (Suc fuel) n acc =
     (if n < 10 then digit_char n # acc
      else str_nat_acc fuel (n div 10) (digit_char (n mod 10) # acc))"

definition str_nat :: "nat \<Rightarrow> string" where
  "str_nat n = str_nat_acc (Suc n) n []"

text \<open>\<open>s.find(sub)\<close> and the slice \<open>s[a:b]\<close>.\<close>

fun py_find_from :: "int \<Rightarrow> string \<Rightarrow> string \<Rightarrow> int" where
  "py_find_from i sub [] = (if sub = [] then i else -1)"
| "py_find_from i sub (c # cs) =
     (if startswith (c # cs) sub then i else py_find_from (i + 1) sub cs)"

definition py_find :: "string \<Rightarrow> string \<Rightarrow> int" where
  "py_find s sub = py_find_from 0 sub s"

definition py_slice :: "string \<Rightarrow> int \<Rightarrow> int \<Rightarrow> string" where
  "py_slice s a b =
     (let n = int (length s);
          a' = (if a < 0 then max 0 (n + a) else min a n);
          b' = (if b < 0 then max 0 (n + b) else min b n)
      in take (nat (b' - a')) (drop (nat a') s))"

text \<open>\<open>os.path.splitext\<close> on a POSIX path: the extension starts at the last dot of the
  last path component, leading dots of that component not counted.\<close>

definition splitext :: "string \<Rightarrow> string \<times> string" where
  "splitext p =
     (let base = rev (takeWhile (\<lambda>c. c \<noteq> CHR ''/'') (rev p));
          stem = dropWhile (\<lambda>c. c = CHR ''.'') base
      in if CHR ''.'' \<in> set stem then
           (let ext = CHR ''.'' # rev (takeWhile (\<lambda>c. c \<noteq> CHR ''.'') (rev stem))
            in (take (length p - length ext) p, ext))
         else (p, []))"

definition isfile :: "filesystem \<Rightarrow> string \<Rightarrow> bool" where
  "isfile fs p = (fs p \<noteq> None)"

section \<open>FACEIT_OT_AppendActionToFaceitRig\<close>

record append_props =
  ap_expressions_type :: string
  ap_load_custom_path :: bool
  ap_load_method :: string
  ap_filepath :: string
  ap_scale_method :: string
  ap_auto_scale_method :: string
  ap_new_action_scale :: "rat list"
  ap_auto_scale_eyes :: bool
  ap_apply_existing_corrective_shape_keys :: bool
  ap_first_expression_set :: bool

definition expression_presets :: "(string \<times> string) list" where
  "expression_presets =
     [(''ARKIT'', ''arkit_expressions.face''), (''TONGUE'', ''tongue_expressions.face''),
      (''PHONEMES'', ''phoneme_expressions.face''), (''A2F'', ''a2f_46_expressions.face'')]"

type_synonym report = "string \<times> string"

text \<open>The frames of the imported slots and the rest frames around them.\<close>

definition new_frames_of :: "nat \<Rightarrow> int list" where
  "new_frames_of new_expression_count = map (\<lambda>i. (int i + 1) * 10) [0..<new_expression_count]"

definition zero_frames_of :: "int list \<Rightarrow> int list" where
  "zero_frames_of frames = sort (remdups (concat (map (\<lambda>f. [f + 1, f - 9]) frames)))"

definition base_value :: "string \<Rightarrow> nat \<Rightarrow> rat" where
  "base_value dp i =
     (if str_in ''scale'' dp then 1
      else if str_in ''rotation_quaternion'' dp \<and> i = 0 then 1
      else 0)"

definition channels_of :: "string \<Rightarrow> nat" where
  "channels_of dp =
     (if str_in ''rotation_quaternion'' dp then 4
      else if str_in ''scale'' dp \<or> str_in ''rotation_euler'' dp \<or> str_in ''location'' dp then 3
      else 1)"

text \<open>
  \<open>np.array(data)\<close> for the keyframes of one channel. A list of \<open>[frame, value]\<close> pairs
  (numbers, or booleans, which numpy reads as 1 and 0) is a two-dimensional array; a list
  that holds no list is one-dimensional, whatever its entries; a list that mixes the two,
  or rows that are not pairs of numbers, is taken as an array that cannot be joined with
  the rest keyframes, and anything that is not a list is a zero-dimensional array, which
  cannot be joined either.
\<close>

datatype np_array = Array1 | Array2 "keyframe list"

fun json_number :: "json \<Rightarrow> rat option" where
  "json_number (JNumber x) = Some x"
| "json_number (JBool b) = Some (if b then 1 else 0)"
| "json_number _ = None"

fun json_pair :: "json \<Rightarrow> keyframe option" where
  "json_pair (JArray [a, b]) =
     (case (json_number a, json_number b) of (Some f, Some v) \<Rightarrow> Some (f, v) | _ \<Rightarrow> None)"
| "json_pair _ = None"

fun is_json_array :: "json \<Rightarrow> bool" where
  "is_json_array (JArray _) = True"
| "is_json_array _ = False"

definition np_array_of :: "json \<Rightarrow> py_error + np_array" where
  "np_array_of data =
     (case data of
        JArray rows \<Rightarrow>
          (if \<not> list_ex is_json_array rows then Inr Array1
           else (case those (map json_pair rows) of
                   Some kf_data \<Rightarrow> Inr (Array2 kf_data)
                 | None \<Rightarrow> Inl ValueError))
      | _ \<Rightarrow> Inl ValueError)"

text \<open>
  The keyframe array of one channel: the loaded keyframes followed by a rest keyframe at
  every zero frame. With no zero frames the rest array is empty and one-dimensional, and
  numpy refuses to join or to index it.
\<close>

definition channel_kf_data :: "json option \<Rightarrow> rat \<Rightarrow> int list \<Rightarrow> py_error + keyframe list" where
  "channel_kf_data data base zero_frames =
     (let kf_data_base = map (\<lambda>f. (of_int f, base)) zero_frames
      in case (case data of
                 None \<Rightarrow> Inr Array1
               | Some j \<Rightarrow> if py_truthy j then np_array_of j else Inr Array1) of
           Inl e \<Rightarrow> Inl e
         | Inr Array1 \<Rightarrow> (if zero_frames = [] then Inl IndexError else Inr kf_data_base)
         | Inr (Array2 kf_data) \<Rightarrow>
             (if zero_frames = [] then Inl ValueError else Inr (kf_data @ kf_data_base)))"

definition new_fcurve :: "string \<Rightarrow> nat \<Rightarrow> fcurve" where
  "new_fcurve dp i = \<lparr>data_path = dp, array_index = i, keyframe_points = []\<rparr>"

fun import_channels ::
  "host \<Rightarrow> string \<Rightarrow> json \<Rightarrow> int list \<Rightarrow> nat list \<Rightarrow> action \<Rightarrow> py_error + action" where
  "import_channels h dp data_per_array_index zero_frames [] act = Inr act"
| "import_channels h dp data_per_array_index zero_frames (i # is) act =
     (case data_per_array_index of
        JObject d \<Rightarrow>
          (case channel_kf_data (dict_get d (str_nat i)) (base_value dp i) zero_frames of
             Inl e \<Rightarrow> Inl e
           | Inr kf_data \<Rightarrow>
               import_channels h dp data_per_array_index zero_frames is
                 (act @ [populate_keyframe_points_from_np_array h (new_fcurve dp i) kf_data True]))
      | _ \<Rightarrow> Inl AttributeError)"

definition bone_name_of :: "string \<Rightarrow> string" where
  "bone_name_of dp = py_slice dp (py_find dp ''bones[\"'' + 7) (py_find dp ''\"]'')"

text \<open>The loop over the data paths of the file: the new action and the missing bones.\<close>

fun import_fcurves ::
  "host \<Rightarrow> int list \<Rightarrow> (string \<times> json) list \<Rightarrow> action \<times> string list
    \<Rightarrow> py_error + (action \<times> string list)" where
  "import_fcurves h zero_frames [] (act, missing_dps) = Inr (act, missing_dps)"
| "import_fcurves h zero_frames ((dp, data_per_array_index) # rest) (act, missing_dps) =
     (let bone_name = bone_name_of dp
      in if str_in ''influence'' dp then import_fcurves h zero_frames rest (act, missing_dps)
         else if bone_name \<notin> set (rig_bones h) then
           import_fcurves h zero_frames rest
             (act, if bone_name \<in> set missing_dps then missing_dps else missing_dps @ [bone_name])
         else
           (case import_channels h dp data_per_array_index zero_frames
                   [0..<channels_of dp] act of
              Inl e \<Rightarrow> Inl e
            | Inr act' \<Rightarrow> import_fcurves h zero_frames rest (act', missing_dps)))"

definition skip_lid_bones :: "string list" where
  "skip_lid_bones =
     [''lid.T.L.003'', ''lid.T.L.002'', ''lid.T.L.001'', ''lid.B.L.001'', ''lid.B.L.002'',
      ''lid.B.L.003'', ''lid.B.L'', ''lid.T.L'', ''lid.T.R.003'', ''lid.T.R.002'',
      ''lid.T.R.001'', ''lid.B.R.001'', ''lid.B.R.002'', ''lid.B.R.003'', ''lid.B.R'',
      ''lid.T.R'']"

definition skip_double_constraint :: "string list" where
  "skip_double_constraint = [''nose.005'', ''chin.002'', ''nose.003'']"

text \<open>
  Scaling the new poses to the rig. \<open>skip_scale_bones += skip_lid_bones\<close> extends the
  list \<open>skip_double_constraint\<close> in place, which nothing reads afterwards.
\<close>

definition auto_action_scale :: "rat \<times> rat \<times> rat \<Rightarrow> json \<Rightarrow> py_error + rat list" where
  "auto_action_scale rig_dim import_rig_dimension =
     (case import_rig_dimension of
        JArray (JNumber x # JNumber y # JNumber z # _) \<Rightarrow>
          (if x = 0 \<or> y = 0 \<or> z = 0 then Inl ZeroDivisionError
           else Inr [fst rig_dim / x, fst (snd rig_dim) / y, snd (snd rig_dim) / z])
      | JArray (_ # _ # _ # _) \<Rightarrow> Inl TypeError
      | JArray _ \<Rightarrow> Inl IndexError
      | _ \<Rightarrow> Inl TypeError)"

definition scale_new_action ::
  "host \<Rightarrow> append_props \<Rightarrow> json \<Rightarrow> json option \<Rightarrow> int list \<Rightarrow> action \<Rightarrow> py_error + action" where
  "scale_new_action h props import_rig_dimension eye_dimensions new_frames act =
     (let eye_dims = (case eye_dimensions of
                        None \<Rightarrow> None
                      | Some j \<Rightarrow> if py_truthy j \<and> ap_auto_scale_eyes props then Some j else None);
          skip_scale_bones =
            skip_double_constraint @ (if eye_dims = None then [] else skip_lid_bones);
          eyes = (\<lambda>a. case eye_dims of None \<Rightarrow> a | Some j \<Rightarrow> scale_eye_animation h j a)
      in if ap_scale_method props = ''AUTO'' then
           (case auto_action_scale (rig_dimensions h) import_rig_dimension of
              Inl e \<Rightarrow> Inl e
            | Inr action_scale \<Rightarrow>
                Inr (eyes
                  (if list_all (\<lambda>x. x = 1) action_scale then act
                   else if ap_auto_scale_method props = ''GLOBAL'' then
                     scale_poses_to_new_dimensions_slow h action_scale (Some skip_scale_bones)
                       new_frames act
                   else scale_action_to_rig h action_scale (Some skip_lid_bones) new_frames act)))
         else if ap_scale_method props = ''OVERWRITE'' then
           Inr (eyes
             (if list_all (\<lambda>x. x = 1) (ap_new_action_scale props) then act
              else scale_poses_to_new_dimensions_slow h (ap_new_action_scale props) None
                     new_frames act))
         else Inr (eyes act))"

text \<open>Appending the imported curves behind the existing keyframes of both actions.\<close>

definition append_fcurve :: "host \<Rightarrow> int \<Rightarrow> fcurve \<Rightarrow> action \<Rightarrow> action" where
  "append_fcurve h frame_offset import_fc act =
     (let kf_data = map (\<lambda>key. (fst key + of_int frame_offset, snd key))
                      (kf_data_to_numpy_array h import_fc);
          found = get_fcurve_from_bpy_struct h act (data_path import_fc)
                    (array_index import_fc) None;
          act' = fst found;
          i = snd found
      in if i < length act'
         then act'[i := populate_keyframe_points_from_np_array h (act' ! i) kf_data True]
         else act')"

text \<open>One entry of the \<open>expressions\<close> dict becomes one call of the add operator.\<close>

definition json_string :: "json \<Rightarrow> py_error + string" where
  "json_string j = (case j of JString s \<Rightarrow> Inr s | _ \<Rightarrow> Inl TypeError)"

definition load_expression ::
  "host \<Rightarrow> string \<Rightarrow> json \<Rightarrow> scene \<Rightarrow> py_error + scene" where
  "load_expression h expression_name expression_data sc =
     (case expression_data of
        JObject d \<Rightarrow>
          (let mirror = (case dict_get d ''mirror_name'' of None \<Rightarrow> JString '''' | Some j \<Rightarrow> j);
               sd = (case dict_get d ''side'' of
                       None \<Rightarrow> JString ''N''
                     | Some j \<Rightarrow> if py_truthy j then j else JString ''N'');
               proc = (case dict_get d ''procedural'' of None \<Rightarrow> JString ''NONE'' | Some j \<Rightarrow> j)
           in case (json_string mirror, json_string sd, json_string proc) of
                (Inr m, Inr s, Inr p) \<Rightarrow>
                  (case add_expression_item h
                          (add_defaults\<lparr>op_expression_name := expression_name, op_side := s,
                             op_mirror_name_overwrite := m, op_procedural := p\<rparr>) sc of
                     Inl e \<Rightarrow> Inl e
                   | Inr (_, sc') \<Rightarrow> Inr sc')
              | _ \<Rightarrow> Inl TypeError)
      | _ \<Rightarrow> Inl AttributeError)"

fun load_expressions :: "host \<Rightarrow> (string \<times> json) list \<Rightarrow> scene \<Rightarrow> py_error + scene" where
  "load_expressions h [] sc = Inr sc"
| "load_expressions h ((expression_name, expression_data) # rest) sc =
     (case load_expression h expression_name expression_data sc of
        Inl e \<Rightarrow> Inl e
      | Inr sc' \<Rightarrow> load_expressions h rest sc')"

definition check_custom_path :: "host \<Rightarrow> append_props \<Rightarrow> filesystem \<Rightarrow> report option" where
  "check_custom_path h props fs =
     (if ap_load_custom_path props then
        (if snd (splitext (ap_filepath props)) \<noteq> ''.face'' then
           Some (''ERROR'', ''You need to provide a file of type .face'')
         else if \<not> isfile fs (ap_filepath props) then
           Some (''ERROR'',
                 ''The specified filepath does not exist: '' @ realpath h (ap_filepath props))
         else None)
      else None)"

definition resolve_load_method :: "append_props \<Rightarrow> scene \<Rightarrow> report list \<times> string" where
  "resolve_load_method props sc =
     (if ap_load_method props = ''APPEND'' then
        (let no_shapes = (faceit_expression_list sc = []);
             no_action = (actions sc Faceit_shape_action = None
                            \<or> actions sc Overwrite_shape_action = None)
         in ((if no_shapes then
                [(''INFO'', ''Could not append the expressions, because there are no shapes. Using Overwrite method instead'')]
              else [])
             @ (if no_action then
                  [(''INFO'', ''Could not append the action, because no Action was found. Using Overwrite method instead'')]
                else []),
             if no_shapes \<or> no_action then ''OVERWRITE'' else ''APPEND''))
      else ([], ap_load_method props))"

definition overwrite_clear :: "scene \<Rightarrow> scene" where
  "overwrite_clear sc =
     sc\<lparr>faceit_expression_list := [],
        actions := (actions sc)(Faceit_shape_action := None, Overwrite_shape_action := None),
        rig_action := (if rig_action sc = Some Faceit_shape_action
                          \<or> rig_action sc = Some Overwrite_shape_action
                       then None else rig_action sc)\<rparr>"

text \<open>The parts of the document the operator reads.\<close>

record face_data =
  expression_data_loaded :: "(string \<times> json) list"
  import_rig_dimension :: json
  action_dict :: "(string \<times> json) list"
  eye_dimensions :: "json option"

definition read_face_file :: "filesystem \<Rightarrow> string \<Rightarrow> py_error + face_data" where
  "read_face_file fs path =
     (case fs path of
        None \<Rightarrow> Inl FileNotFoundError
      | Some (JObject d) \<Rightarrow>
          (case (dict_get d ''expressions'', dict_get d ''action_scale'', dict_get d ''action'') of
             (Some ex, Some scale, Some act) \<Rightarrow>
               (case (ex, act) of
                  (JObject exd, JObject actd) \<Rightarrow>
                    Inr \<lparr>expression_data_loaded = exd, import_rig_dimension = scale,
                         action_dict = actd, eye_dimensions = dict_get d ''eye_dimensions''\<rparr>
                | _ \<Rightarrow> Inl AttributeError)
           | _ \<Rightarrow> Inl KeyError)
      | Some _ \<Rightarrow> Inl NameError)"

definition missing_bone_report :: "string \<Rightarrow> report" where
  "missing_bone_report bone_name =
     (''WARNING'', ''An Fcurve has been loaded for the bone '' @ bone_name
        @ '' which is missing in the Faceit Rig. Regenerate the Rig!'')"

text \<open>Installing the new action: as the shape action, or appended to both actions.\<close>

definition install_new_action :: "host \<Rightarrow> string \<Rightarrow> action \<Rightarrow> scene \<Rightarrow> scene" where
  "install_new_action h load_method new_shape_action sc =
     (if load_method = ''OVERWRITE'' then
        sc\<lparr>actions := (actions sc)(Faceit_shape_action \<mapsto> new_shape_action,
              Overwrite_shape_action \<mapsto> create_overwrite_animation h new_shape_action),
           rig_action := Some Overwrite_shape_action\<rparr>
      else
        (let ow = action_or_new (actions sc Overwrite_shape_action);
             shape = action_or_new (actions sc Faceit_shape_action);
             frame_offset = py_int (snd (get_action_frame_range h ow) - 1);
             shape' = foldl (\<lambda>a import_fc. append_fcurve h frame_offset import_fc a) shape
                        new_shape_action;
             ow' = foldl (\<lambda>a import_fc. append_fcurve h frame_offset import_fc a) ow
                     new_shape_action
         in sc\<lparr>actions := (actions sc)(Faceit_shape_action \<mapsto> shape',
                 Overwrite_shape_action \<mapsto> ow'),
               rig_action := Some Overwrite_shape_action\<rparr>))"

definition preset_mouth_close :: "host \<Rightarrow> append_props \<Rightarrow> scene \<Rightarrow> py_error + scene" where
  "preset_mouth_close h props sc =
     (if ap_load_custom_path props then Inr sc
      else if ap_expressions_type props = ''ARKIT'' then
        map_sum id snd (procedural_mouth_close_execute h ''jawOpen'' ''mouthClose'' sc)
      else if ap_expressions_type props = ''A2F'' then
        map_sum id snd (procedural_mouth_close_execute h ''jawDrop'' ''jawDropLipTowards'' sc)
      else Inr sc)"

definition update_corrective_flags :: "host \<Rightarrow> append_props \<Rightarrow> scene \<Rightarrow> scene" where
  "update_corrective_flags h props sc =
     sc\<lparr>faceit_expression_list :=
          map (\<lambda>e. e\<lparr>corr_shape_key :=
                       (ap_apply_existing_corrective_shape_keys props
                        \<and> has_corrective_shape_key h (name e))\<rparr>)
            (faceit_expression_list sc)\<rparr>"

definition append_execute ::
  "host \<Rightarrow> append_props \<Rightarrow> filesystem \<Rightarrow> scene
    \<Rightarrow> py_error + (op_status \<times> report list \<times> scene)" where
  "append_execute h props fs sc =
     (case check_custom_path h props fs of
        Some err \<Rightarrow> Inr (CANCELLED, [err], sc)
      | None \<Rightarrow>
     (let sc1 = sc\<lparr>use_keyframe_insert_auto := False\<rparr>;
          (reports1, load_method) = resolve_load_method props sc1;
          sc2 = (if load_method = ''OVERWRITE'' then overwrite_clear sc1 else sc1)
      in case (if ap_load_custom_path props then Inr (ap_filepath props)
               else (case map_of expression_presets (ap_expressions_type props) of
                       None \<Rightarrow> Inl KeyError
                     | Some file \<Rightarrow> Inr (get_expression_presets h @ file))) of
           Inl e \<Rightarrow> Inl e
         | Inr path \<Rightarrow>
     (case read_face_file fs path of
        Inl e \<Rightarrow> Inl e
      | Inr data \<Rightarrow>
     (let new_expression_count = length (expression_data_loaded data);
          new_frames = new_frames_of new_expression_count;
          zero_frames = zero_frames_of new_frames
      in case import_fcurves h zero_frames (action_dict data) ([], []) of
           Inl e \<Rightarrow> Inl e
         | Inr (new_shape_action, missing_dps) \<Rightarrow>
     (case scale_new_action h props (import_rig_dimension data) (eye_dimensions data)
             new_frames new_shape_action of
        Inl e \<Rightarrow> Inl e
      | Inr scaled_action \<Rightarrow>
     (let sc3 = install_new_action h load_method scaled_action sc2
      in case load_expressions h (expression_data_loaded data) sc3 of
           Inl e \<Rightarrow> Inl e
         | Inr sc4 \<Rightarrow>
     (case preset_mouth_close h props sc4 of
        Inl e \<Rightarrow> Inl e
      | Inr sc5 \<Rightarrow>
     (let reports2 = map missing_bone_report missing_dps;
          reports3 = (if missing_dps \<noteq> [] then
                        [(''WARNING'', ''Operator finished with Warnings. Take a look at the console output for more information.'')]
                      else [(''INFO'', ''New Expressions.'')]);
          sc6 = set_frame_range h (update_corrective_flags h props sc5)
      in Inr (FINISHED, reports1 @ reports2 @ reports3,
              sc6\<lparr>use_keyframe_insert_auto := ap_first_expression_set props\<rparr>)))))))))"

section \<open>FACEIT_OT_ForceZeroFrames\<close>







section \<open>FACEIT_OT_ExportExpressionsToJson\<close>

definition export_poll :: "scene \<Rightarrow> bool" where
  "export_poll sc =
     (faceit_expression_list sc \<noteq> []
      \<and> (case rig_action sc of None \<Rightarrow> False | Some aid \<Rightarrow> actions sc aid \<noteq> None))"

definition export_expression :: "anim_properties \<Rightarrow> json" where
  "export_expression expr =
     (let proc = (if (name expr = ''eyeBlinkLeft'' \<or> name expr = ''eyeBlinkRight'')
                     \<and> procedural expr = ''NONE''
                  then ''EYEBLINKS'' else procedural expr)
      in JObject [(''mirror_name'', JString (mirror_name expr)), (''side'', JString (side expr)),
                  (''procedural'', JString proc)])"

definition expression_list_data :: "anim_properties list \<Rightarrow> (string \<times> json) list" where
  "expression_list_data items =
     foldl (\<lambda>d expr. dict_set d (name expr) (export_expression expr)) [] items"

text \<open>\<open>x % 10\<close> on floats, with the sign of the divisor.\<close>

definition mod10 :: "rat \<Rightarrow> rat" where
  "mod10 x = x - 10 * of_int \<lfloor>x / 10\<rfloor>"

definition export_kf_data :: "host \<Rightarrow> fcurve \<Rightarrow> keyframe list" where
  "export_kf_data h fc =
     (let kf_data = kf_data_to_numpy_array h fc
      in if str_in ''mouth_lock'' (data_path fc) then kf_data
         else
           (let on_slots = filter (\<lambda>key. \<not> mod10 (fst key) \<noteq> 0) kf_data
            in if str_in ''scale'' (data_path fc)
                  \<or> str_in ''rotation_quaternion'' (data_path fc) \<and> array_index fc = 0
               then filter (\<lambda>key. \<not> snd key = 1) on_slots
               else filter (\<lambda>key. \<not> snd key = 0) on_slots))"

definition kf_json :: "keyframe list \<Rightarrow> json" where
  "kf_json kf_data = JArray (map (\<lambda>key. JArray [JNumber (fst key), JNumber (snd key)]) kf_data)"

definition export_fcurve :: "host \<Rightarrow> (string \<times> json) list \<Rightarrow> fcurve \<Rightarrow> (string \<times> json) list" where
  "export_fcurve h dict_so_far fc =
     (let dp = data_path fc
      in if str_in ''DEF-'' dp \<or> str_in ''MCH-'' dp \<or> str_in ''ORG-'' dp then dict_so_far
         else if str_in ''influence'' dp then dict_so_far
         else
           (let kf_anim_data = export_kf_data h fc
            in if kf_anim_data = [] then dict_so_far
               else
                 (case dict_get dict_so_far dp of
                    Some (JObject dp_dict) \<Rightarrow>
                      dict_set dict_so_far dp
                        (JObject (dict_set dp_dict (str_nat (array_index fc)) (kf_json kf_anim_data)))
                  | _ \<Rightarrow>
                      dict_set dict_so_far dp
                        (JObject [(str_nat (array_index fc), kf_json kf_anim_data)]))))"

definition export_data :: "host \<Rightarrow> action \<Rightarrow> anim_properties list \<Rightarrow> json" where
  "export_data h act items =
     JObject
       [(''action_scale'',
           JArray [JNumber (fst (rig_dimensions h)), JNumber (fst (snd (rig_dimensions h))),
                   JNumber (snd (snd (rig_dimensions h)))]),
        (''eye_dimensions'', JArray [fst (get_eye_dimensions h), snd (get_eye_dimensions h)]),
        (''expressions'', JObject (expression_list_data items)),
        (''rest_pose'', JObject (rest_pose h)),
        (''action'', JObject (foldl (export_fcurve h) [] act))]"

definition export_filepath :: "string \<Rightarrow> string" where
  "export_filepath filepath = (if endswith filepath ''.face'' then filepath else filepath @ ''.face'')"

definition export_execute ::
  "host \<Rightarrow> string \<Rightarrow> filesystem \<Rightarrow> scene \<Rightarrow> py_error + (op_status \<times> filesystem \<times> scene)" where
  "export_execute h filepath fs sc =
     (case rig_action sc of
        None \<Rightarrow> Inl AttributeError
      | Some aid \<Rightarrow>
          (case actions sc aid of
             None \<Rightarrow> Inl AttributeError
           | Some act \<Rightarrow>
               Inr (FINISHED,
                    fs(export_filepath filepath \<mapsto> export_data h act (faceit_expression_list sc)),
                    sc)))"

definition export_expressions ::
  "host \<Rightarrow> string \<Rightarrow> filesystem \<Rightarrow> scene \<Rightarrow> py_error + (op_status \<times> filesystem \<times> scene)" where
  "export_expressions h filepath fs sc =
     (if export_poll sc then export_execute h filepath fs sc else Inl PollFailed)"

section \<open>Notions of the specification\<close>

text \<open>The slot invariant: the expression at list position \<open>i\<close> has frame \<open>(i + 1) * 10\<close>.\<close>

definition slot_invariant :: "anim_properties list \<Rightarrow> bool" where
  "slot_invariant items = (map frame items = map (\<lambda>i. (int i + 1) * 10) [0..<length items])"

text \<open>Exchanging the keyframes of two frames, as the specification describes a move.\<close>

definition swap_key :: "rat \<Rightarrow> rat \<Rightarrow> keyframe \<Rightarrow> keyframe" where
  "swap_key fa fb key =
     (if fst key = fa then (fb, snd key) else if fst key = fb then (fa, snd key) else key)"

definition swap_curve_keys :: "rat \<Rightarrow> rat \<Rightarrow> fcurve \<Rightarrow> fcurve" where
  "swap_curve_keys fa fb curve =
     fcurve_update (curve\<lparr>keyframe_points := map (swap_key fa fb) (keyframe_points curve)\<rparr>)"

text \<open>No keyframe of the action lies on frame \<open>m\<close>.\<close>

definition no_key_at :: "rat \<Rightarrow> action option \<Rightarrow> bool" where
  "no_key_at m a =
     (case a of
        None \<Rightarrow> True
      | Some act \<Rightarrow> list_all (\<lambda>fc. list_all (\<lambda>key. fst key \<noteq> m) (keyframe_points fc)) act)"



text \<open>The scene an operator leaves behind when it returns a status.\<close>

definition move_result :: "direction \<Rightarrow> scene \<Rightarrow> scene" where
  "move_result dir sc = (case move_execute dir sc of Inr (_, sc') \<Rightarrow> sc' | Inl _ \<Rightarrow> sc)"
















section \<open>Example data\<close>

definition example_item :: "string \<Rightarrow> string \<Rightarrow> int \<Rightarrow> anim_properties" where
  "example_item nm sd f =
     \<lparr>name = nm, side = sd, frame = f, index = 0, mirror_name = '''',
      corr_shape_key = False, procedural = ''NONE''\<rparr>"

definition example_curve :: "string \<Rightarrow> nat \<Rightarrow> keyframe list \<Rightarrow> fcurve" where
  "example_curve dp i kps = \<lparr>data_path = dp, array_index = i, keyframe_points = kps\<rparr>"

definition example_action :: action where
  "example_action =
     [example_curve ''pose.bones[\"jaw\"].location'' 0
        [(1, 0), (10, 1 / 2), (11, 0), (20, 1 / 4), (21, 0), (30, 3), (31, 0)],
      example_curve ''pose.bones[\"lid.T.L\"].scale'' 1
        [(1, 1), (11, 1), (20, 2), (21, 1), (31, 1)]]"

definition example_corrective_action :: action where
  "example_corrective_action =
     [example_curve (corrective_data_path ''jawOpen'') 0 [(9, 0), (10, 1), (11, 0)],
      example_curve (corrective_data_path ''eyeBlinkLeft'') 0 [(19, 0), (20, 1), (21, 0)]]"

definition example_scene :: scene where
  "example_scene =
     \<lparr>faceit_expression_list =
        [example_item ''jawOpen'' ''N'' 10, example_item ''eyeBlinkLeft'' ''L'' 20,
         example_item ''eyeBlinkRight'' ''R'' 30],
      faceit_expression_list_index = 0,
      frame_start = 1,
      frame_end = 31,
      use_keyframe_insert_auto = True,
      actions = [Overwrite_shape_action \<mapsto> example_action,
                 Faceit_shape_action \<mapsto> example_action,
                 Corrective_sk_action \<mapsto> example_corrective_action],
      rig_action = Some Overwrite_shape_action\<rparr>"

text \<open>A host with simple stand-ins for the helpers.\<close>

definition example_unique_name :: "string \<Rightarrow> anim_properties list \<Rightarrow> string" where
  "example_unique_name nm items =
     (if nm \<in> set (map name items)
      then replicate (Suc (foldr (\<lambda>e n. max (length (name e)) n) items 0)) CHR ''x''
      else nm)"

fun example_find_fcurve :: "action \<Rightarrow> string \<Rightarrow> nat \<Rightarrow> nat option" where
  "example_find_fcurve [] dp i = None"
| "example_find_fcurve (fc # fcs) dp i =
     (if data_path fc = dp \<and> array_index fc = i then Some 0
      else map_option Suc (example_find_fcurve fcs dp i))"

definition example_get_fcurve :: "action \<Rightarrow> string \<Rightarrow> nat \<Rightarrow> bool option \<Rightarrow> action \<times> nat" where
  "example_get_fcurve act dp i replace_existing =
     (case example_find_fcurve act dp i of
        Some k \<Rightarrow> (act, k)
      | None \<Rightarrow> (act @ [new_fcurve dp i], length act))"

definition example_frame_range :: "action \<Rightarrow> rat \<times> rat" where
  "example_frame_range act =
     (let frames = concat (map (map fst \<circ> keyframe_points) act)
      in case frames of [] \<Rightarrow> (0, 0) | f # fs \<Rightarrow> (fold min fs f, fold max fs f))"

definition example_populate :: "fcurve \<Rightarrow> keyframe list \<Rightarrow> bool \<Rightarrow> fcurve" where
  "example_populate fc kf_data add_keys =
     fc\<lparr>keyframe_points := (if add_keys then keyframe_points fc else []) @ kf_data\<rparr>"

definition example_host :: host where
  "example_host =
     \<lparr>rig_bones = [''jaw'', ''lid.T.L'', ''MCH-eye.L''],
      rig_dimensions = (1, 2, 3),
      rest_pose = [(''jaw'', JArray [JNumber 0, JNumber 0, JNumber 1])],
      get_eye_dimensions = (JArray [JNumber 1, JNumber 1], JArray [JNumber 1, JNumber 1]),
      get_expression_presets = ''/presets/'',
      realpath = (\<lambda>p. p),
      get_action_frame_range = example_frame_range,
      get_expression_name_double_entries = example_unique_name,
      get_fcurve_from_bpy_struct = example_get_fcurve,
      add_expression_keyframes = (\<lambda>f act. act),
      eye_blink_keyframes = (\<lambda>sd anim_mode f active acts. acts),
      mouth_close_keyframes = (\<lambda>f g active acts. acts),
      populate_keyframe_points_from_np_array = example_populate,
      kf_data_to_numpy_array = keyframe_points,
      scale_poses_to_new_dimensions_slow = (\<lambda>scale skip frames act. act),
      scale_action_to_rig = (\<lambda>scale skip frames act. act),
      scale_eye_animation = (\<lambda>dims act. act),
      create_overwrite_animation = (\<lambda>act. act),
      has_corrective_shape_key = (\<lambda>nm. False),
      keyframe_insert_rest_pose = (\<lambda>f act. act)\<rparr>"

text \<open>The example scene with one more keyframe, halfway between the first two slots.\<close>

definition midpoint_scene :: scene where
  "midpoint_scene =
     example_scene\<lparr>actions :=
       [Overwrite_shape_action \<mapsto>
          [example_curve ''pose.bones[\"jaw\"].location'' 0 [(10, 1), (15, 7), (20, 4)]]]\<rparr>"

definition example_append_props :: append_props where
  "example_append_props =
     \<lparr>ap_expressions_type = ''ARKIT'', ap_load_custom_path = True, ap_load_method = ''OVERWRITE'',
      ap_filepath = ''/faces/expressions.face'', ap_scale_method = ''AUTO'',
      ap_auto_scale_method = ''GLOBAL'', ap_new_action_scale = [1, 1, 1],
      ap_auto_scale_eyes = True, ap_apply_existing_corrective_shape_keys = True,
      ap_first_expression_set = False\<rparr>"










section \<open>Side classification\<close>

lemmas string_defs =
  lower_def lower_char_def endswith_def ascii_uppercase_def ascii_lowercase_def islower_char_def

text \<open>
  C10. \<open>get_side\<close> returns one of \<open>'L'\<close>, \<open>'N'\<close>, \<open>'R'\<close> for every name;
  \<open>poll_side_in_expression_name\<close> is false for side \<open>'N'\<close>; and whenever
  \<open>get_side\<close> answers \<open>'L'\<close> or \<open>'R'\<close>, the predicate holds for that side and name.
\<close>

theorem get_side_total_consistent:
  "get_side expression_name \<in> {''L'', ''N'', ''R''}
   \<and> \<not> poll_side_in_expression_name ''N'' expression_name
   \<and> (get_side expression_name = ''L'' \<or> get_side expression_name = ''R''
        \<longrightarrow> poll_side_in_expression_name (get_side expression_name) expression_name)"
  by (simp add: get_side_def poll_side_in_expression_name_def)

theorem get_side_total_consistent_witness:
  "get_side ''jawLeft'' = ''L'' \<and> poll_side_in_expression_name ''L'' ''jawLeft''
   \<and> \<not> poll_side_in_expression_name ''N'' ''jawLeft''"
proof -
  have left: "get_side ''jawLeft'' = ''L''"
    by (simp add: get_side_def string_defs)
  from get_side_total_consistent [of "''jawLeft''"] left show ?thesis
    by simp
qed

text \<open>
  C7. A name that \<open>get_side\<close> classifies as left should get a non-empty mirror name that
  is classified as right. \<open>get_side\<close> compares the lower-cased name, \<open>get_mirror_name\<close>
  knows only the spellings \<open>Left\<close>, \<open>left\<close> and \<open>LEFT\<close>: for the name \<open>lEFT\<close> the
  side is \<open>'L'\<close> and the mirror name is empty.
\<close>

theorem get_mirror_name_mixed_case_empty:
  "get_side ''lEFT'' = ''L'' \<and> get_mirror_name (get_side ''lEFT'') ''lEFT'' = ''''
   \<and> get_side (get_mirror_name (get_side ''lEFT'') ''lEFT'') = ''N''"
  by (simp add: get_side_def get_mirror_name_def string_defs)

section \<open>Moving at the ends of the list\<close>

text \<open>
  C8. Moving the first item up or the last item down returns \<open>CANCELLED\<close> and leaves the
  scene as it was: the list order, every frame field and every keyframe of every action.
\<close>

theorem move_boundary_cancelled:
  assumes "move_poll sc"
    and "(dir = UP \<and> faceit_expression_list_index sc = 0)
         \<or> (dir = DOWN
             \<and> faceit_expression_list_index sc = int (length (faceit_expression_list sc)) - 1)"
  shows "move_expression_item dir sc = Inr (CANCELLED, sc)"
  using assms
  by (auto simp: move_expression_item_def move_execute_def move_poll_def collection_get_def
      Let_def)

theorem move_boundary_cancelled_witness:
  "move_poll example_scene \<and> faceit_expression_list_index example_scene = 0
   \<and> move_expression_item UP example_scene = Inr (CANCELLED, example_scene)"
proof -
  have poll: "move_poll example_scene"
    by (simp add: move_poll_def example_scene_def)
  have first: "(UP = UP \<and> faceit_expression_list_index example_scene = 0)
      \<or> (UP = DOWN \<and> faceit_expression_list_index example_scene
            = int (length (faceit_expression_list example_scene)) - 1)"
    by (simp add: example_scene_def)
  from move_boundary_cancelled [OF poll first] poll first show ?thesis
    by simp
qed

section \<open>Removing the last expression\<close>

text \<open>
  C9. With at most one entry in the list, removing clears the expression set: the list is
  emptied, the shape action and the overwrite action are deleted, the frame range becomes
  1 to 250, and the operator returns \<open>FINISHED\<close>.
\<close>

theorem remove_last_clears:
  assumes "length (faceit_expression_list sc) \<le> 1"
  shows "remove_execute h remove_item sc =
           Inr (FINISHED,
                sc\<lparr>faceit_expression_list := [],
                   faceit_expression_list_index := -1,
                   frame_start := 1,
                   frame_end := 250,
                   use_keyframe_insert_auto := False,
                   actions := (actions sc)(Faceit_shape_action := None,
                                           Overwrite_shape_action := None),
                   rig_action := None\<rparr>)"
  using assms by (simp add: remove_execute_def clear_execute_def Let_def)

theorem remove_last_clears_witness:
  "length (faceit_expression_list
             (example_scene\<lparr>faceit_expression_list := [example_item ''jawOpen'' ''N'' 10]\<rparr>)) \<le> 1
   \<and> (case remove_execute example_host ''''
              (example_scene\<lparr>faceit_expression_list := [example_item ''jawOpen'' ''N'' 10]\<rparr>) of
         Inl e \<Rightarrow> False
       | Inr (status, sc) \<Rightarrow>
           status = FINISHED \<and> faceit_expression_list sc = []
           \<and> actions sc Faceit_shape_action = None \<and> actions sc Overwrite_shape_action = None
           \<and> actions sc Corrective_sk_action = Some example_corrective_action
           \<and> frame_start sc = 1 \<and> frame_end sc = 250)"
proof -
  have short: "length (faceit_expression_list
      (example_scene\<lparr>faceit_expression_list := [example_item ''jawOpen'' ''N'' 10]\<rparr>)) \<le> 1"
    by simp
  show ?thesis
    unfolding remove_last_clears [OF short]
    by (simp add: example_scene_def)
qed

section \<open>Moving an expression\<close>

lemma collection_move_next:
  "collection_move (pre @ a # b # post) (int (length pre) + 1) (int (length pre)) = pre @ b # a # post"
  by (simp add: collection_move_def Let_def nth_append nat_add_distrib)

lemma collection_move_prev:
  "collection_move (pre @ a # b # post) (int (length pre)) (int (length pre) + 1) = pre @ b # a # post"
  by (simp add: collection_move_def Let_def nth_append nat_add_distrib)

lemma move_curve_keys_swap:
  assumes "fb = fa + d" "d \<noteq> 0" "list_all (\<lambda>key. fst key \<noteq> fb - d / 2) (keyframe_points curve)"
  shows "move_curve_keys fa fb d curve = curve\<lparr>keyframe_points := map (swap_key fa fb) (keyframe_points curve)\<rparr>"
proof -
  have "shift_key_if (fb - d / 2) (- (d / 2)) (shift_key_if fa d (shift_key_if fb (- (d / 2)) key))
        = swap_key fa fb key" if "fst key \<noteq> fb - d / 2" for key
    using that assms(1,2) by (cases key) (auto simp: shift_key_if_def swap_key_def)
  then show ?thesis
    using assms(3) by (simp add: move_curve_keys_def Let_def list_all_iff)
qed

lemma move_action_keys_swap:
  assumes "fb = fa + d" "d \<noteq> 0" "no_key_at (fb - d / 2) (Some act)"
  shows "move_action_keys fa fb d act = map (swap_curve_keys fa fb) act"
  using assms
  by (auto simp: move_action_keys_def swap_curve_keys_def no_key_at_def list_all_iff
      move_curve_keys_swap)

lemma corrective_data_path_inj: "corrective_data_path a = corrective_data_path b \<Longrightarrow> a = b"
  by (simp add: corrective_data_path_def)

lemma slot_invariant_nth:
  assumes "slot_invariant items" "k < length items"
  shows "frame (items ! k) = (int k + 1) * 10"
proof -
  have "map frame items ! k = map (\<lambda>i. (int i + 1) * 10) [0..<length items] ! k"
    using assms(1) by (simp add: slot_invariant_def)
  then show ?thesis using assms(2) by simp
qed

lemma fcurves_find_bound: "fcurves_find act dp = Some k \<Longrightarrow> k < length act"
  by (induction act arbitrary: k) (auto split: if_splits)

lemma fcurves_find_cong:
  "map (\<lambda>fc. (data_path fc, array_index fc)) act = map (\<lambda>fc. (data_path fc, array_index fc)) act'
   \<Longrightarrow> fcurves_find act dp = fcurves_find act' dp"
proof (induction act arbitrary: act')
  case Nil
  then show ?case by simp
next
  case (Cons fc act)
  then obtain fc' rest where act': "act' = fc' # rest" by (cases act') auto
  from Cons.prems act' have hd: "data_path fc = data_path fc'" "array_index fc = array_index fc'"
    and tl: "map (\<lambda>fc. (data_path fc, array_index fc)) act = map (\<lambda>fc. (data_path fc, array_index fc)) rest"
    by simp_all
  from Cons.IH [OF tl] hd act' show ?case by simp
qed

lemma shift_all_keys_path [simp]:
  "data_path (shift_all_keys delta fc) = data_path fc"
  "array_index (shift_all_keys delta fc) = array_index fc"
  by (simp_all add: shift_all_keys_def fcurve_update_def)

lemma fcurves_find_shift_found:
  "fcurves_find (shift_found_fcurve dp delta act) dp' = fcurves_find act dp'"
proof (cases "fcurves_find act dp")
  case None
  then show ?thesis by (simp add: shift_found_fcurve_def)
next
  case (Some i)
  have "map (\<lambda>fc. (data_path fc, array_index fc)) (act[i := shift_all_keys delta (act ! i)])
        = map (\<lambda>fc. (data_path fc, array_index fc)) act"
  proof (rule nth_equalityI)
    show "length (map (\<lambda>fc. (data_path fc, array_index fc)) (act[i := shift_all_keys delta (act ! i)]))
        = length (map (\<lambda>fc. (data_path fc, array_index fc)) act)"
      by simp
  next
    fix n
    assume "n < length (map (\<lambda>fc. (data_path fc, array_index fc)) (act[i := shift_all_keys delta (act ! i)]))"
    then show "map (\<lambda>fc. (data_path fc, array_index fc)) (act[i := shift_all_keys delta (act ! i)]) ! n
        = map (\<lambda>fc. (data_path fc, array_index fc)) act ! n"
      by (cases "n = i") simp_all
  qed
  then have "fcurves_find (act[i := shift_all_keys delta (act ! i)]) dp' = fcurves_find act dp'"
    by (rule fcurves_find_cong)
  with Some show ?thesis by (simp add: shift_found_fcurve_def)
qed

lemma fcurves_find_distinct_paths:
  assumes "fcurves_find act dp = Some k" "fcurves_find act dp' = Some k"
  shows "dp = dp'"
  using assms by (induction act arbitrary: k) (auto split: if_splits)

lemma shift_found_fcurve_length [simp]: "length (shift_found_fcurve dp delta act) = length act"
  by (cases "fcurves_find act dp") (simp_all add: shift_found_fcurve_def)

lemma shift_found_fcurve_nth:
  assumes "k < length act"
  shows "shift_found_fcurve dp delta act ! k
    = (if fcurves_find act dp = Some k then shift_all_keys delta (act ! k) else act ! k)"
proof (cases "fcurves_find act dp")
  case None
  then show ?thesis by (simp add: shift_found_fcurve_def)
next
  case (Some i)
  show ?thesis
  proof (cases "i = k")
    case True
    with Some assms show ?thesis by (simp add: shift_found_fcurve_def)
  next
    case False
    with Some assms show ?thesis by (simp add: shift_found_fcurve_def)
  qed
qed

lemma shift_two_found:
  assumes "dpa \<noteq> dpb"
  shows "length (shift_found_fcurve dpb db (shift_found_fcurve dpa da act)) = length act
    \<and> (\<forall>k < length act.
          shift_found_fcurve dpb db (shift_found_fcurve dpa da act) ! k
          = (if fcurves_find act dpa = Some k then shift_all_keys da (act ! k)
             else if fcurves_find act dpb = Some k then shift_all_keys db (act ! k)
             else act ! k))"
proof -
  let ?act1 = "shift_found_fcurve dpa da act"
  have nth1: "?act1 ! k = (if fcurves_find act dpa = Some k then shift_all_keys da (act ! k) else act ! k)"
    if "k < length act" for k
    using that by (rule shift_found_fcurve_nth)
  have len2: "length (shift_found_fcurve dpb db ?act1) = length act"
    by simp
  have nth2: "shift_found_fcurve dpb db ?act1 ! k
      = (if fcurves_find act dpb = Some k then shift_all_keys db (?act1 ! k) else ?act1 ! k)"
    if "k < length act" for k
  proof -
    have "k < length ?act1" using that by simp
    from shift_found_fcurve_nth [OF this, of dpb db] show ?thesis
      by (simp only: fcurves_find_shift_found)
  qed
  have excl: "\<not> (fcurves_find act dpa = Some k \<and> fcurves_find act dpb = Some k)" for k
    using assms fcurves_find_distinct_paths by blast
  show ?thesis
  proof (intro conjI allI impI)
    show "length (shift_found_fcurve dpb db ?act1) = length act"
      by (rule len2)
  next
    fix k
    assume k: "k < length act"
    consider (a) "fcurves_find act dpa = Some k" "fcurves_find act dpb \<noteq> Some k"
      | (b) "fcurves_find act dpa \<noteq> Some k" "fcurves_find act dpb = Some k"
      | (c) "fcurves_find act dpa \<noteq> Some k" "fcurves_find act dpb \<noteq> Some k"
      using excl [of k] by blast
    then show "shift_found_fcurve dpb db ?act1 ! k
        = (if fcurves_find act dpa = Some k then shift_all_keys da (act ! k)
           else if fcurves_find act dpb = Some k then shift_all_keys db (act ! k)
           else act ! k)"
    proof cases
      case a
      then show ?thesis by (simp only: nth2 [OF k] nth1 [OF k] if_True if_False)
    next
      case b
      then show ?thesis by (simp only: nth2 [OF k] nth1 [OF k] if_True if_False)
    next
      case c
      then show ?thesis by (simp only: nth2 [OF k] nth1 [OF k] if_True if_False)
    qed
  qed
qed


lemma split_adjacent:
  assumes "Suc i < length xs"
  shows "xs = take i xs @ xs ! i # xs ! Suc i # drop (Suc (Suc i)) xs"
proof -
  have "xs = take i xs @ xs ! i # drop (Suc i) xs"
    using assms by (simp add: id_take_nth_drop)
  also have "drop (Suc i) xs = xs ! Suc i # drop (Suc (Suc i)) xs"
    using assms by (simp add: Cons_nth_drop_Suc)
  finally show ?thesis .
qed

lemma move_exchange_next:
  assumes "Suc i < length xs"
  shows "collection_move (xs[i := a, Suc i := b]) (int i + 1) (int i) = xs[i := b, Suc i := a]"
proof -
  obtain pre x y post where xs: "xs = pre @ x # y # post" and len: "length pre = i"
    using split_adjacent [OF assms] assms by (metis length_take min.absorb2 less_imp_le_nat Suc_lessD)
  have "xs[i := a, Suc i := b] = pre @ a # b # post"
    using xs len by (simp add: list_update_append)
  moreover have "xs[i := b, Suc i := a] = pre @ b # a # post"
    using xs len by (simp add: list_update_append)
  ultimately show ?thesis
    using collection_move_next [of pre a b post] len by simp
qed

lemma move_exchange_prev:
  assumes "Suc j < length xs"
  shows "collection_move (xs[Suc j := a, j := b]) (int j) (int j + 1) = xs[Suc j := b, j := a]"
proof -
  obtain pre x y post where xs: "xs = pre @ x # y # post" and len: "length pre = j"
    using split_adjacent [OF assms] assms by (metis length_take min.absorb2 less_imp_le_nat Suc_lessD)
  have "xs[Suc j := a, j := b] = pre @ b # a # post"
    using xs len by (simp add: list_update_append)
  moreover have "xs[Suc j := b, j := a] = pre @ a # b # post"
    using xs len by (simp add: list_update_append)
  ultimately show ?thesis
    using collection_move_prev [of pre b a post] len by simp
qed

lemma insert_length: "length (take n ys @ x # drop n ys) = Suc (length ys)"
proof -
  have "length (take n ys @ x # drop n ys) = Suc (length (take n ys @ drop n ys))"
    by (simp del: append_take_drop_id)
  then show ?thesis by (simp only: append_take_drop_id)
qed

lemma remove_length: "n < length xs \<Longrightarrow> Suc (length (take n xs @ drop (Suc n) xs)) = length xs"
proof -
  assume n: "n < length xs"
  have "xs = take n xs @ xs ! n # drop (Suc n) xs"
    using n by (simp add: id_take_nth_drop)
  then have "length xs = length (take n xs @ xs ! n # drop (Suc n) xs)"
    by simp
  then show ?thesis by (simp del: append_take_drop_id)
qed

lemma collection_move_length [simp]: "length (collection_move xs a b) = length xs"
proof (cases "0 \<le> a \<and> a < int (length xs) \<and> 0 \<le> b \<and> b < int (length xs)")
  case True
  then have "nat a < length xs" by linarith
  from remove_length [OF this] True show ?thesis
    by (simp only: collection_move_def Let_def insert_length if_True simp_thms)
next
  case False
  then show ?thesis by (simp only: collection_move_def Let_def if_False)
qed

lemma move_execute_components:
  assumes idx: "0 \<le> faceit_expression_list_index sc"
      "faceit_expression_list_index sc < int (length (faceit_expression_list sc))"
    and d: "d = (if dir = UP then -1 else 1)"
    and nb: "0 \<le> faceit_expression_list_index sc + d"
      "faceit_expression_list_index sc + d < int (length (faceit_expression_list sc))"
    and i: "i = nat (faceit_expression_list_index sc)"
    and j: "j = nat (faceit_expression_list_index sc + d)"
    and items: "items = faceit_expression_list sc"
    and mv: "mv = move_action_keys (of_int (frame (items ! i))) (of_int (frame (items ! j))) (of_int (d * 10))"
  shows "move_execute dir sc = Inr (FINISHED, move_result dir sc)"
    and "faceit_expression_list (move_result dir sc) =
           collection_move (items[i := (items ! i)\<lparr>frame := frame (items ! j)\<rparr>,
                                     j := (items ! j)\<lparr>frame := frame (items ! i)\<rparr>])
                (int j) (int i)"
    and "faceit_expression_list_index (move_result dir sc) = int j"
    and "actions (move_result dir sc) Overwrite_shape_action = map_option mv (actions sc Overwrite_shape_action)"
    and "actions (move_result dir sc) Faceit_shape_action = map_option mv (actions sc Faceit_shape_action)"
    and "actions (move_result dir sc) Corrective_sk_action =
           map_option
                            (\<lambda>cc. shift_found_fcurve (corrective_data_path (name (items ! j)))
                                     (- of_int (d * 10))
                                     (shift_found_fcurve (corrective_data_path (name (items ! i)))
                                        (of_int (d * 10)) cc))
                            (actions sc Corrective_sk_action)"
    and "actions (move_result dir sc) (Other_action s) = actions sc (Other_action s)"
proof -
  let ?L = "faceit_expression_list sc"
  let ?idx = "faceit_expression_list_index sc"
  have ij: "i \<noteq> j" "i < length ?L" "j < length ?L"
    using idx nb d i j by (auto split: if_splits)
  have get_i: "collection_get ?L ?idx = Inr (?L ! i)"
    using idx i by (simp add: collection_get_def)
  have get_j: "collection_get ?L (?idx + d) = Inr (?L ! j)"
    using nb j by (simp add: collection_get_def)
  have not_end: "?idx + d \<noteq> int (length ?L)" "?idx + d \<noteq> -1"
    using nb by simp_all
  have nat_i: "nat ?idx = i" and nat_j: "nat (?idx + d) = j"
    using i j by simp_all
  have int_j: "?idx + d = int j" and int_i: "?idx = int i"
    using idx nb i j by simp_all
  have neg: "\<not> ?idx < 0" "\<not> ?idx + d < 0"
    using idx nb by simp_all
  have d': "(if dir = UP then -1 else 1) = d" using d by simp
  have res: "move_execute dir sc =
    Inr (FINISHED,
      sc\<lparr>faceit_expression_list :=
           collection_move (?L[i := (?L ! i)\<lparr>frame := frame (?L ! j)\<rparr>,
                               j := (?L ! j)\<lparr>frame := frame (?L ! i)\<rparr>]) (?idx + d) ?idx,
         faceit_expression_list_index :=
           move_index dir
             (collection_move (?L[i := (?L ! i)\<lparr>frame := frame (?L ! j)\<rparr>,
                               j := (?L ! j)\<lparr>frame := frame (?L ! i)\<rparr>]) (?idx + d) ?idx) ?idx,
         actions :=
           (let acts1 = (case actions sc Overwrite_shape_action of
                     None \<Rightarrow> actions sc
                   | Some a \<Rightarrow> (actions sc)(Overwrite_shape_action \<mapsto> mv a));
                acts2 = (case acts1 Faceit_shape_action of
                     None \<Rightarrow> acts1
                   | Some a \<Rightarrow> acts1(Faceit_shape_action \<mapsto> mv a))
            in (case acts2 Corrective_sk_action of
                     None \<Rightarrow> acts2
                   | Some cc \<Rightarrow>
                       acts2(Corrective_sk_action \<mapsto>
                         shift_found_fcurve (corrective_data_path (name (?L ! j)))
                           (- of_int (d * 10))
                           (shift_found_fcurve (corrective_data_path (name (?L ! i)))
                              (of_int (d * 10)) cc))))\<rparr>)"
    unfolding move_execute_def
    apply (simp only: Let_def d' get_i get_j sum.case not_end if_False simp_thms neg nat_i nat_j)
    apply (simp only: mv items)
    apply (simp add: ij)
    done
  show "move_execute dir sc = Inr (FINISHED, move_result dir sc)"
    by (simp add: move_result_def res)
  show "faceit_expression_list (move_result dir sc) =
           collection_move (items[i := (items ! i)\<lparr>frame := frame (items ! j)\<rparr>,
                                     j := (items ! j)\<lparr>frame := frame (items ! i)\<rparr>])
                (int j) (int i)"
    unfolding items by (simp add: move_result_def res int_i [symmetric] int_j [symmetric])
  show "faceit_expression_list_index (move_result dir sc) = int j"
    using idx nb d by (simp add: move_result_def res move_index_def int_j [symmetric])
  show "actions (move_result dir sc) Overwrite_shape_action = map_option mv (actions sc Overwrite_shape_action)"
    by (simp add: move_result_def res Let_def split: option.splits)
  show "actions (move_result dir sc) Faceit_shape_action = map_option mv (actions sc Faceit_shape_action)"
    by (simp add: move_result_def res Let_def split: option.splits)
  show "actions (move_result dir sc) Corrective_sk_action =
           map_option
                            (\<lambda>cc. shift_found_fcurve (corrective_data_path (name (items ! j)))
                                     (- of_int (d * 10))
                                     (shift_found_fcurve (corrective_data_path (name (items ! i)))
                                        (of_int (d * 10)) cc))
                            (actions sc Corrective_sk_action)"
    unfolding items by (simp add: move_result_def res Let_def split: option.splits)
  show "actions (move_result dir sc) (Other_action s) = actions sc (Other_action s)"
    by (simp add: move_result_def res Let_def split: option.splits)
qed

text \<open>
  C3 (amended). In a scene that satisfies the slot invariant, with the moved expression and
  its neighbour both at valid positions and under different names, and with no keyframe of
  the overwrite action or the shape action on the frame halfway between the two slots, the
  move operator finishes and: the two expressions exchange their list positions, each list
  position keeping its frame; in both actions every keyframe on the moved expression's
  frame \<open>fa\<close> goes to the neighbour's frame \<open>fb\<close>, every keyframe on \<open>fb\<close> goes to
  \<open>fa\<close>, and all other keyframes stay (the curves are re-sorted); in the corrective
  action the curve of the moved expression is shifted by \<open>10 * d\<close>, the curve of the
  neighbour by \<open>- 10 * d\<close>, and the other curves are unchanged.
\<close>

theorem move_swaps_slots:
  assumes poll: "move_poll sc"
    and items: "items = faceit_expression_list sc"
    and d: "d = (if dir = UP then -1 else 1)"
    and nb: "0 \<le> faceit_expression_list_index sc + d"
      "faceit_expression_list_index sc + d < int (length items)"
    and i: "i = nat (faceit_expression_list_index sc)"
    and j: "j = nat (faceit_expression_list_index sc + d)"
    and inv: "slot_invariant items"
    and names: "name (items ! i) \<noteq> name (items ! j)"
    and fa: "fa = frame (items ! i)" and fb: "fb = frame (items ! j)"
    and free_ow: "no_key_at ((of_int fa + of_int fb) / 2) (actions sc Overwrite_shape_action)"
    and free_sh: "no_key_at ((of_int fa + of_int fb) / 2) (actions sc Faceit_shape_action)"
  shows "\<exists>sc'. move_expression_item dir sc = Inr (FINISHED, sc')
    \<and> faceit_expression_list sc'
        = items[i := (items ! j)\<lparr>frame := fa\<rparr>, j := (items ! i)\<lparr>frame := fb\<rparr>]
    \<and> faceit_expression_list_index sc' = int j
    \<and> actions sc' Overwrite_shape_action
        = map_option (map (swap_curve_keys (of_int fa) (of_int fb)))
            (actions sc Overwrite_shape_action)
    \<and> actions sc' Faceit_shape_action
        = map_option (map (swap_curve_keys (of_int fa) (of_int fb)))
            (actions sc Faceit_shape_action)
    \<and> (case actions sc Corrective_sk_action of
          None \<Rightarrow> actions sc' Corrective_sk_action = None
        | Some cc \<Rightarrow>
            (\<exists>cc'. actions sc' Corrective_sk_action = Some cc' \<and> length cc' = length cc
               \<and> (\<forall>k < length cc.
                     cc' ! k =
                       (if fcurves_find cc (corrective_data_path (name (items ! i))) = Some k
                        then shift_all_keys (of_int (d * 10)) (cc ! k)
                        else if fcurves_find cc (corrective_data_path (name (items ! j))) = Some k
                        then shift_all_keys (- of_int (d * 10)) (cc ! k)
                        else cc ! k))))"
proof -
  have idx: "0 \<le> faceit_expression_list_index sc"
      "faceit_expression_list_index sc < int (length (faceit_expression_list sc))"
    using poll by (simp_all add: move_poll_def)
  have nb': "0 \<le> faceit_expression_list_index sc + d"
      "faceit_expression_list_index sc + d < int (length (faceit_expression_list sc))"
    using nb items by simp_all
  define mv where "mv = move_action_keys (of_int (frame (items ! i))) (of_int (frame (items ! j)))
      (of_int (d * 10))"
  note comp = move_execute_components [OF idx d nb' i j items mv_def]
  have lt: "i < length items" "j < length items"
    using idx nb i j items by simp_all
  have d_cases: "d = 1 \<or> d = -1" using d by (simp split: if_splits)
  have ji: "int j = int i + d" using idx nb i j by simp
  have frames: "fa = (int i + 1) * 10" "fb = (int j + 1) * 10"
    using slot_invariant_nth [OF inv] lt fa fb by simp_all
  have fb_eq: "(of_int fb :: rat) = of_int fa + of_int (d * 10)"
    using frames ji by simp
  have d_nz: "(of_int (d * 10) :: rat) \<noteq> 0" using d_cases by auto
  have mid: "(of_int fb :: rat) - of_int (d * 10) / 2 = (of_int fa + of_int fb) / 2"
    using fb_eq by (simp add: field_simps)
  have mv_swap: "mv act = map (swap_curve_keys (of_int fa) (of_int fb)) act"
    if "no_key_at ((of_int fa + of_int fb) / 2) (Some act)" for act
    unfolding mv_def fa [symmetric] fb [symmetric]
    using that by (intro move_action_keys_swap fb_eq d_nz) (simp only: mid)
  have ow: "actions (move_result dir sc) Overwrite_shape_action
      = map_option (map (swap_curve_keys (of_int fa) (of_int fb))) (actions sc Overwrite_shape_action)"
  proof (cases "actions sc Overwrite_shape_action")
    case None
    then show ?thesis by (simp add: comp(4))
  next
    case (Some act)
    with free_ow have "mv act = map (swap_curve_keys (of_int fa) (of_int fb)) act"
      by (intro mv_swap) simp
    with Some show ?thesis by (simp add: comp(4))
  qed
  have sh: "actions (move_result dir sc) Faceit_shape_action
      = map_option (map (swap_curve_keys (of_int fa) (of_int fb))) (actions sc Faceit_shape_action)"
  proof (cases "actions sc Faceit_shape_action")
    case None
    then show ?thesis by (simp add: comp(5))
  next
    case (Some act)
    with free_sh have "mv act = map (swap_curve_keys (of_int fa) (of_int fb)) act"
      by (intro mv_swap) simp
    with Some show ?thesis by (simp add: comp(5))
  qed
  have lst: "faceit_expression_list (move_result dir sc)
      = items[i := (items ! j)\<lparr>frame := fa\<rparr>, j := (items ! i)\<lparr>frame := fb\<rparr>]"
  proof -
    from d_cases show ?thesis
    proof
      assume "d = 1"
      then have j_eq: "j = Suc i" using ji by simp
      with lt have "Suc i < length items" by simp
      moreover have "int j = int i + 1" using j_eq by simp
      ultimately show ?thesis
        unfolding comp(2) fa fb by (simp only: j_eq move_exchange_next)
    next
      assume "d = -1"
      then have i_eq: "i = Suc j" using ji by simp
      with lt have "Suc j < length items" by simp
      moreover have "int i = int j + 1" using i_eq by simp
      ultimately show ?thesis
        unfolding comp(2) fa fb by (simp only: i_eq move_exchange_prev)
    qed
  qed
  have paths: "corrective_data_path (name (items ! i)) \<noteq> corrective_data_path (name (items ! j))"
    using names corrective_data_path_inj by blast
  have cc: "case actions sc Corrective_sk_action of
          None \<Rightarrow> actions (move_result dir sc) Corrective_sk_action = None
        | Some cc \<Rightarrow>
            (\<exists>cc'. actions (move_result dir sc) Corrective_sk_action = Some cc' \<and> length cc' = length cc
               \<and> (\<forall>k < length cc.
                     cc' ! k =
                       (if fcurves_find cc (corrective_data_path (name (items ! i))) = Some k
                        then shift_all_keys (of_int (d * 10)) (cc ! k)
                        else if fcurves_find cc (corrective_data_path (name (items ! j))) = Some k
                        then shift_all_keys (- of_int (d * 10)) (cc ! k)
                        else cc ! k)))"
  proof (cases "actions sc Corrective_sk_action")
    case None
    then show ?thesis by (simp add: comp(6))
  next
    case (Some act)
    from shift_two_found [OF paths, of "- of_int (d * 10)" "of_int (d * 10)" act] Some
    show ?thesis by (simp add: comp(6))
  qed
  have "move_expression_item dir sc = Inr (FINISHED, move_result dir sc)"
    using poll comp(1) by (simp add: move_expression_item_def)
  with lst comp(3) ow sh cc show ?thesis by blast
qed

lemmas example_defs =
  example_scene_def example_item_def example_action_def example_curve_def
  example_corrective_action_def

theorem move_swaps_slots_witness:
  "map_sum id
     (\<lambda>(status, sc'). (status, map name (faceit_expression_list sc'),
        map frame (faceit_expression_list sc'), faceit_expression_list_index sc',
        map_option (map keyframe_points) (actions sc' Overwrite_shape_action),
        map_option (map keyframe_points) (actions sc' Corrective_sk_action)))
     (move_expression_item DOWN example_scene)
   = Inr (FINISHED, [''eyeBlinkLeft'', ''jawOpen'', ''eyeBlinkRight''], [10, 20, 30], 1,
          Some [[(1, 0), (10, 1 / 4), (11, 0), (20, 1 / 2), (21, 0), (30, 3), (31, 0)],
                [(1, 1), (10, 2), (11, 1), (21, 1), (31, 1)]],
          Some [[(19, 0), (20, 1), (21, 0)], [(9, 0), (10, 1), (11, 0)]])"
proof -
  let ?items = "faceit_expression_list example_scene"
  have poll: "move_poll example_scene"
    by (simp add: move_poll_def example_scene_def)
  have d: "(1::int) = (if DOWN = UP then -1 else 1)" by simp
  have nb: "0 \<le> faceit_expression_list_index example_scene + 1"
    "faceit_expression_list_index example_scene + 1 < int (length ?items)"
    by (simp_all add: example_scene_def)
  have i: "(0::nat) = nat (faceit_expression_list_index example_scene)"
    and j: "(1::nat) = nat (faceit_expression_list_index example_scene + 1)"
    by (simp_all add: example_scene_def)
  have inv: "slot_invariant ?items"
    by (simp add: slot_invariant_def example_defs upt_rec)
  have names: "name (?items ! 0) \<noteq> name (?items ! 1)"
    by (simp add: example_defs)
  have fa: "(10::int) = frame (?items ! 0)" and fb: "(20::int) = frame (?items ! 1)"
    by (simp_all add: example_defs)
  have free_ow: "no_key_at ((of_int 10 + of_int 20) / 2) (actions example_scene Overwrite_shape_action)"
    and free_sh: "no_key_at ((of_int 10 + of_int 20) / 2) (actions example_scene Faceit_shape_action)"
    by (simp_all add: no_key_at_def example_defs)
  from move_swaps_slots [OF poll refl d nb i j inv names fa fb free_ow free_sh]
  obtain sc' where res: "move_expression_item DOWN example_scene = Inr (FINISHED, sc')"
    and lst: "faceit_expression_list sc'
        = ?items[0 := (?items ! 1)\<lparr>frame := 10\<rparr>, 1 := (?items ! 0)\<lparr>frame := 20\<rparr>]"
    and idx: "faceit_expression_list_index sc' = int 1"
    and ow: "actions sc' Overwrite_shape_action
        = map_option (map (swap_curve_keys (of_int 10) (of_int 20)))
            (actions example_scene Overwrite_shape_action)"
    and cc: "case actions example_scene Corrective_sk_action of
          None \<Rightarrow> actions sc' Corrective_sk_action = None
        | Some cc \<Rightarrow>
            (\<exists>cc'. actions sc' Corrective_sk_action = Some cc' \<and> length cc' = length cc
               \<and> (\<forall>k < length cc.
                     cc' ! k =
                       (if fcurves_find cc (corrective_data_path (name (?items ! 0))) = Some k
                        then shift_all_keys (of_int (1 * 10)) (cc ! k)
                        else if fcurves_find cc (corrective_data_path (name (?items ! 1))) = Some k
                        then shift_all_keys (- of_int (1 * 10)) (cc ! k)
                        else cc ! k)))"
    by blast
  have ow_keys: "map_option (map keyframe_points) (actions sc' Overwrite_shape_action)
      = Some [[(1, 0), (10, 1 / 4), (11, 0), (20, 1 / 2), (21, 0), (30, 3), (31, 0)],
                [(1, 1), (10, 2), (11, 1), (21, 1), (31, 1)]]"
    unfolding ow
    by (simp add: example_defs swap_curve_keys_def swap_key_def fcurve_update_def)
  from cc obtain cc' where cc': "actions sc' Corrective_sk_action = Some cc'"
    and len: "length cc' = 2"
    and nth: "\<forall>k < 2. cc' ! k =
        (if fcurves_find example_corrective_action (corrective_data_path ''jawOpen'') = Some k
         then shift_all_keys 10 (example_corrective_action ! k)
         else if fcurves_find example_corrective_action (corrective_data_path ''eyeBlinkLeft'') = Some k
         then shift_all_keys (- 10) (example_corrective_action ! k)
         else example_corrective_action ! k)"
    by (auto simp: example_scene_def example_item_def example_corrective_action_def)
  from len obtain c0 c1 where cc'_eq: "cc' = [c0, c1]"
    by (cases cc'; cases "tl cc'") auto
  from nth [rule_format, of 0] have c0: "keyframe_points c0 = [(19, 0), (20, 1), (21, 0)]"
    unfolding cc'_eq
    by (simp add: example_corrective_action_def example_curve_def corrective_data_path_def
        shift_all_keys_def fcurve_update_def)
  from nth [rule_format, of 1] have c1: "keyframe_points c1 = [(9, 0), (10, 1), (11, 0)]"
    unfolding cc'_eq
    by (simp add: example_corrective_action_def example_curve_def corrective_data_path_def
        shift_all_keys_def fcurve_update_def)
  show ?thesis
    unfolding res
    by (simp add: lst idx ow_keys cc' cc'_eq c0 c1 example_defs)
qed

text \<open>
  The claim as stated fails for a keyframe on an integer frame halfway between the two
  slots: moving the first expression down parks the keyframes of frame 20 on frame 15 and
  then takes everything on frame 15 to frame 10, the keyframe that was there before
  included.
\<close>

theorem move_midpoint_counterexample:
  "map_sum id
     (\<lambda>(status, sc'). (status,
        map_option (map keyframe_points) (actions midpoint_scene Overwrite_shape_action),
        map_option (map keyframe_points) (actions sc' Overwrite_shape_action)))
     (move_expression_item DOWN midpoint_scene)
   = Inr (FINISHED, Some [[(10, 1), (15, 7), (20, 4)]], Some [[(10, 7), (10, 4), (20, 1)]])"
  by (simp add: move_expression_item_def move_poll_def move_execute_def collection_get_def
      midpoint_scene_def example_defs Let_def move_action_keys_def move_curve_keys_def
      shift_key_if_def fcurve_update_def collection_move_def move_index_def)

section \<open>Removing an expression\<close>

lemma collection_find_ge: "- 1 \<le> collection_find xs key"
  by (induction xs) (auto simp: Let_def)





lemma set_frame_fields_actions [simp]:
  "actions (sc\<lparr>frame_start := a, frame_end := b\<rparr>) = actions sc"
  "faceit_expression_list (sc\<lparr>frame_start := a, frame_end := b\<rparr>) = faceit_expression_list sc"
  by simp_all





section \<open>Loading from a path that is not a \<open>.face\<close> file\<close>

text \<open>
  C6. With \<open>load_custom_path\<close> set, a file path whose extension is not \<open>.face\<close> or
  that names no existing file makes the operator report one error and return
  \<open>CANCELLED\<close>, the scene (expression list, actions, settings) being what it was.
\<close>

theorem append_bad_path_cancelled:
  assumes "ap_load_custom_path props"
    and "snd (splitext (ap_filepath props)) \<noteq> ''.face'' \<or> \<not> isfile fs (ap_filepath props)"
  shows "\<exists>msg. append_execute h props fs sc = Inr (CANCELLED, [(''ERROR'', msg)], sc)"
  using assms by (auto simp: append_execute_def check_custom_path_def)

theorem append_bad_path_cancelled_witness:
  "ap_load_custom_path (example_append_props\<lparr>ap_filepath := ''/faces/expressions.json''\<rparr>)
   \<and> append_execute example_host (example_append_props\<lparr>ap_filepath := ''/faces/expressions.json''\<rparr>)
         Map.empty example_scene
       = Inr (CANCELLED, [(''ERROR'', ''You need to provide a file of type .face'')], example_scene)
   \<and> append_execute example_host example_append_props Map.empty example_scene
       = Inr (CANCELLED,
              [(''ERROR'', ''The specified filepath does not exist: /faces/expressions.face'')],
              example_scene)"
proof -
  let ?p1 = "example_append_props\<lparr>ap_filepath := ''/faces/expressions.json''\<rparr>"
  have c1: "ap_load_custom_path ?p1" and c2: "ap_load_custom_path example_append_props"
    by (simp_all add: example_append_props_def)
  have e1: "snd (splitext (ap_filepath ?p1)) \<noteq> ''.face'' \<or> \<not> isfile Map.empty (ap_filepath ?p1)"
    and e2: "snd (splitext (ap_filepath example_append_props)) \<noteq> ''.face''
      \<or> \<not> isfile Map.empty (ap_filepath example_append_props)"
    by (simp_all add: isfile_def)
  from append_bad_path_cancelled [OF c1 e1, of example_host example_scene]
  obtain m1 where r1: "append_execute example_host ?p1 Map.empty example_scene
      = Inr (CANCELLED, [(''ERROR'', m1)], example_scene)" by blast
  from append_bad_path_cancelled [OF c2 e2, of example_host example_scene]
  obtain m2 where r2: "append_execute example_host example_append_props Map.empty example_scene
      = Inr (CANCELLED, [(''ERROR'', m2)], example_scene)" by blast
  have m1: "m1 = ''You need to provide a file of type .face''"
    using r1 by (simp add: append_execute_def check_custom_path_def example_append_props_def
        splitext_def)
  have m2: "m2 = ''The specified filepath does not exist: /faces/expressions.face''"
    using r2 by (simp add: append_execute_def check_custom_path_def example_append_props_def
        splitext_def isfile_def example_host_def)
  from c1 r1 r2 m1 m2 show ?thesis by simp
qed

section \<open>Rest keyframes at the slot boundaries\<close>

























lemma set_frame_range_actions [simp]: "actions (set_frame_range h sc) = actions sc"
  by (simp add: set_frame_range_def split: option.splits)

lemma update_corrective_flags_actions [simp]:
  "actions (update_corrective_flags h props sc) = actions sc"
  by (simp add: update_corrective_flags_def)













end
